theory Spec2Isabelle
  imports Main "HOL-Library.Char_ord" "HOL-Library.List_Lexorder" "HOL-Library.Product_Lexorder"
begin

section \<open>Data model\<close>

text \<open>
  Entities of \<^verbatim>\<open>birthday-message.entity.ts\<close> and \<^verbatim>\<open>user.entity.ts\<close>.
  Instants (JavaScript \<^verbatim>\<open>Date\<close>) are milliseconds since the epoch, as \<open>int\<close>.
  A nullable column is an \<open>option\<close>. The relation property \<open>user\<close> is filled
  only by queries that ask for \<^verbatim>\<open>relations: ['user']\<close>.
\<close>

datatype MessageStatus = PENDING | QUEUED | SENT | FAILED

datatype MessageType = BIRTHDAY | ANNIVERSARY

record User =
  id_u :: string
  firstName :: string
  lastName :: string
  email :: string
  timezone :: string
  birthdayMonth :: int
  birthdayDay :: int

record BirthdayMessage =
  id_m :: string
  userId :: string
  user :: "User option"
  year :: int
  status :: MessageStatus
  messageType :: MessageType
  scheduledFor :: int
  sentAt :: "int option"
  attempts :: int
  lastError :: "string option"
  createdAt :: int
  updatedAt :: int

text \<open>\<^verbatim>\<open>BirthdayMessagePayload\<close> of the producer: the queue entry.\<close>

record BirthdayMessagePayload =
  p_messageId :: string
  p_userId :: string
  p_email :: string
  p_fullName :: string

text \<open>
  A thrown JavaScript error: its \<^verbatim>\<open>message\<close> and, for database errors, its
  \<^verbatim>\<open>code\<close>.
\<close>

datatype error = Error (err_message: string) (err_code: "string option")

text \<open>
  The shared stores every instance works on: the two tables, the Redis keys with their
  expiry instants, the producer's channel (\<open>False\<close> while it is \<^verbatim>\<open>null\<close>), the
  entries published to the birthday queue, and the calls made to the external notifier.
\<close>

record sys =
  messages :: "BirthdayMessage list"
  users :: "string \<Rightarrow> User option"
  locks :: "string \<Rightarrow> int option"
  channel :: bool
  queue :: "BirthdayMessagePayload list"
  notifier_calls :: "(string \<times> string) list"

section \<open>LockService\<close>

text \<open>
  \<^verbatim>\<open>SET key value EX ttl NX\<close>: the key is set only when it is absent, and a key
  is absent once its expiry instant has been reached.
\<close>

definition isLocked :: "string \<Rightarrow> int \<Rightarrow> sys \<Rightarrow> bool" where
  "isLocked key now s =
     (case locks s (''lock:'' @ key) of None \<Rightarrow> False | Some e \<Rightarrow> now < e)"

definition acquireLock :: "string \<Rightarrow> int \<Rightarrow> int \<Rightarrow> sys \<Rightarrow> bool \<times> sys" where
  "acquireLock key ttlSeconds now s =
     (if isLocked key now s then (False, s)
      else (True, s\<lparr>locks := (locks s)(''lock:'' @ key \<mapsto> now + ttlSeconds * 1000)\<rparr>))"

definition releaseLock :: "string \<Rightarrow> sys \<Rightarrow> sys" where
  "releaseLock key s = s\<lparr>locks := (locks s)(''lock:'' @ key := None)\<rparr>"

section \<open>BirthdayService (the message ledger)\<close>

text \<open>
  \<^verbatim>\<open>repository.update(id, partial)\<close> and \<^verbatim>\<open>repository.increment\<close> change
  every row with the given id and stamp the \<^verbatim>\<open>@UpdateDateColumn\<close>. The ledger
  store is taken to be reachable: the only database error modelled is the one
  \<^verbatim>\<open>save\<close> can raise.
\<close>

definition repo_update ::
  "string \<Rightarrow> (BirthdayMessage \<Rightarrow> BirthdayMessage) \<Rightarrow> int \<Rightarrow> BirthdayMessage list \<Rightarrow> BirthdayMessage list" where
  "repo_update messageId f now rows =
     map (\<lambda>m. if id_m m = messageId then (f m)\<lparr>updatedAt := now\<rparr> else m) rows"

definition loadUser :: "sys \<Rightarrow> BirthdayMessage \<Rightarrow> BirthdayMessage" where
  "loadUser s m = m\<lparr>user := users s (userId m)\<rparr>"

definition findById :: "string \<Rightarrow> sys \<Rightarrow> BirthdayMessage option" where
  "findById messageId s =
     map_option (loadUser s) (find (\<lambda>m. id_m m = messageId) (messages s))"

definition markAsQueued :: "string \<Rightarrow> int \<Rightarrow> sys \<Rightarrow> sys" where
  "markAsQueued messageId now s =
     s\<lparr>messages := repo_update messageId (\<lambda>m. m\<lparr>status := QUEUED\<rparr>) now (messages s)\<rparr>"

definition markAsSent :: "string \<Rightarrow> int \<Rightarrow> sys \<Rightarrow> sys" where
  "markAsSent messageId now s =
     s\<lparr>messages :=
          repo_update messageId (\<lambda>m. m\<lparr>status := SENT, sentAt := Some now\<rparr>) now (messages s)\<rparr>"

text \<open>
  \<^verbatim>\<open>markAsFailed\<close> awaits two statements one after the other: the increment of
  \<open>attempts\<close>, then the update of \<open>status\<close> and \<open>lastError\<close>.
\<close>

definition markAsFailed_increment :: "string \<Rightarrow> int \<Rightarrow> sys \<Rightarrow> sys" where
  "markAsFailed_increment messageId now s =
     s\<lparr>messages :=
          repo_update messageId (\<lambda>m. m\<lparr>attempts := attempts m + 1\<rparr>) now (messages s)\<rparr>"

definition markAsFailed_update :: "string \<Rightarrow> string \<Rightarrow> int \<Rightarrow> sys \<Rightarrow> sys" where
  "markAsFailed_update messageId err now s =
     s\<lparr>messages :=
          repo_update messageId (\<lambda>m. m\<lparr>status := FAILED, lastError := Some err\<rparr>) now
            (messages s)\<rparr>"

definition markAsFailed :: "string \<Rightarrow> string \<Rightarrow> int \<Rightarrow> sys \<Rightarrow> sys" where
  "markAsFailed messageId err now s =
     markAsFailed_update messageId err now (markAsFailed_increment messageId now s)"

text \<open>The ledger states \<^verbatim>\<open>markAsFailed\<close> writes, in order, one per awaited statement.\<close>

definition markAsFailed_states :: "string \<Rightarrow> string \<Rightarrow> int \<Rightarrow> sys \<Rightarrow> sys list" where
  "markAsFailed_states messageId err now s =
     (let s1 = markAsFailed_increment messageId now s;
          s2 = markAsFailed_update messageId err now s1
      in [s1, s2])"

definition getPendingMessagesToQueue :: "int \<Rightarrow> sys \<Rightarrow> BirthdayMessage list" where
  "getPendingMessagesToQueue now s =
     map (loadUser s) (filter (\<lambda>m. status m = PENDING \<and> scheduledFor m \<le> now) (messages s))"

text \<open>
  The \<^verbatim>\<open>take\<close> option of \<^verbatim>\<open>find\<close>: a row limit, except that
  \<^verbatim>\<open>take: 0\<close> puts no limit on the query.
\<close>

definition take_rows :: "nat \<Rightarrow> 'a list \<Rightarrow> 'a list" where
  "take_rows limit rows = (if limit = 0 then rows else take limit rows)"

text \<open>
  \<^verbatim>\<open>find({where: {status: FAILED}, take: limit, order: {updatedAt: 'ASC'}})\<close>, then
  the JavaScript \<^verbatim>\<open>filter\<close> on the rows that came back. With a row limit the
  rows are taken in the order of update stamp, then id.
\<close>

definition getFailedMessagesForRetry :: "int \<Rightarrow> nat \<Rightarrow> sys \<Rightarrow> BirthdayMessage list" where
  "getFailedMessagesForRetry maxAttempts limit s =
     filter (\<lambda>m. attempts m < maxAttempts)
       (take_rows limit
          (sort_key (\<lambda>m. (updatedAt m, id_m m))
             (map (loadUser s) (filter (\<lambda>m. status m = FAILED) (messages s)))))"

definition resetToPending :: "string \<Rightarrow> int \<Rightarrow> sys \<Rightarrow> sys" where
  "resetToPending messageId now s =
     s\<lparr>messages := repo_update messageId (\<lambda>m. m\<lparr>status := PENDING\<rparr>) now (messages s)\<rparr>"

text \<open>
  A time zone is its UTC offset, in milliseconds, at each instant.
\<close>

type_synonym zone = "int \<Rightarrow> int"

text \<open>
  What one call of the scanner's per-recipient step reads from outside the stores: the
  clock, the zone of the process (what \<^verbatim>\<open>Date.getFullYear\<close> uses), the zone of
  each zone name (the moment-timezone data), the uuid the database generates for an
  inserted row, the rows other instances insert between the existence check and the
  insert, and a driver error raised by \<^verbatim>\<open>save\<close>.
\<close>

record env =
  clock :: int
  serverOffset :: zone
  zoneOffset :: "string \<Rightarrow> zone"
  generatedId :: string
  concurrentRows :: "BirthdayMessage list"
  saveFault :: "error option"

text \<open>The proleptic Gregorian year of a day number (days since 1970-01-01).\<close>

definition year_of_days :: "int \<Rightarrow> int" where
  "year_of_days days =
     (let z = days + 719468;
          era = z div 146097;
          doe = z - era * 146097;
          yoe = (doe - doe div 1460 + doe div 36524 - doe div 146096) div 365;
          doy = doe - (365 * yoe + yoe div 4 - yoe div 100);
          mp = (5 * doy + 2) div 153
      in yoe + era * 400 + (if mp < 10 then 0 else 1))"

text \<open>\<^verbatim>\<open>Date.prototype.getFullYear\<close>: the year in the zone of the process.\<close>

definition getFullYear :: "zone \<Rightarrow> int \<Rightarrow> int" where
  "getFullYear z t = year_of_days ((t + z t) div 86400000)"

text \<open>Setting one field of a wall-clock reading in milliseconds.\<close>

definition set_hour :: "int \<Rightarrow> int \<Rightarrow> int" where
  "set_hour h l = l - ((l mod 86400000) div 3600000) * 3600000 + h * 3600000"

definition set_minute :: "int \<Rightarrow> int \<Rightarrow> int" where
  "set_minute m l = l - ((l mod 3600000) div 60000) * 60000 + m * 60000"

definition set_second :: "int \<Rightarrow> int \<Rightarrow> int" where
  "set_second sec l = l - ((l mod 60000) div 1000) * 1000 + sec * 1000"

text \<open>
  A moment in a zone is an instant; its wall clock reads the instant plus the offset the
  zone has there. \<^verbatim>\<open>hour(h)\<close> sets the hour on the wall clock and keeps that
  wall time while the offset is looked up again, at the instant the new wall time has
  under the old offset. \<^verbatim>\<open>minute(m)\<close> and \<^verbatim>\<open>second(s)\<close> set their
  field on the wall clock and keep the instant this gives under the offset in force.
\<close>

definition moment_hour :: "zone \<Rightarrow> int \<Rightarrow> int \<Rightarrow> int" where
  "moment_hour z h t = (let w = set_hour h (t + z t) in w - z (w - z t))"

definition moment_minute :: "zone \<Rightarrow> int \<Rightarrow> int \<Rightarrow> int" where
  "moment_minute z m t = set_minute m (t + z t) - z t"

definition moment_second :: "zone \<Rightarrow> int \<Rightarrow> int \<Rightarrow> int" where
  "moment_second z sec t = set_second sec (t + z t) - z t"

text \<open>\<^verbatim>\<open>moment.tz(timezone).hour(9).minute(0).second(0).toDate()\<close>\<close>

definition scheduledFor_of :: "zone \<Rightarrow> int \<Rightarrow> int" where
  "scheduledFor_of z t = moment_second z 0 (moment_minute z 0 (moment_hour z 9 t))"

text \<open>
  The wall-clock reading 09:00:00.000 of the local day an instant falls on in a zone,
  and the offset \<^verbatim>\<open>hour(9)\<close> looks up for a moment at that instant.
\<close>

definition local_nine :: "zone \<Rightarrow> int \<Rightarrow> int" where
  "local_nine z t = ((t + z t) div 86400000) * 86400000 + 9 * 3600000"

definition nine_offset :: "zone \<Rightarrow> int \<Rightarrow> int" where
  "nine_offset z t = z (set_hour 9 (t + z t) - z t)"

fun digits_of :: "nat \<Rightarrow> string" where
  "digits_of n =
     (if n < 10 then [''0123456789'' ! n]
      else digits_of (n div 10) @ [''0123456789'' ! (n mod 10)])"

declare digits_of.simps [simp del]

definition string_of_int :: "int \<Rightarrow> string" where
  "string_of_int i = (if i < 0 then ''-'' @ digits_of (nat (- i)) else digits_of (nat i))"

text \<open>The key of the uniqueness constraint: the recipient and the year.\<close>

abbreviation same_key :: "User \<Rightarrow> int \<Rightarrow> BirthdayMessage \<Rightarrow> bool" where
  "same_key usr yr \<equiv> (\<lambda>m. userId m = id_u usr \<and> year m = yr)"

text \<open>
  \<^verbatim>\<open>repository.save\<close> of a new row. The table carries
  \<^verbatim>\<open>@Unique(['userId', 'year'])\<close>; its violation is error code 23505.
\<close>

definition repo_save :: "error option \<Rightarrow> BirthdayMessage \<Rightarrow> sys \<Rightarrow> error + sys" where
  "repo_save fault message s =
     (case fault of
        Some err \<Rightarrow> Inl err
      | None \<Rightarrow>
          if list_ex (\<lambda>m. userId m = userId message \<and> year m = year message) (messages s)
          then Inl (Error ''duplicate key value violates unique constraint'' (Some ''23505''))
          else Inr (s\<lparr>messages := messages s @ [message]\<rparr>))"

definition createBirthdayMessage ::
  "env \<Rightarrow> User \<Rightarrow> int \<Rightarrow> sys \<Rightarrow> (error + BirthdayMessage option) \<times> sys" where
  "createBirthdayMessage e usr scheduled s =
     (let yr = getFullYear (serverOffset e) scheduled in
      case find (\<lambda>m. userId m = id_u usr \<and> year m = yr) (messages s) of
        Some existing \<Rightarrow> (Inr None, s)
      | None \<Rightarrow>
          (let message = \<lparr>id_m = generatedId e, userId = id_u usr, user = None, year = yr,
                          status = PENDING, messageType = BIRTHDAY, scheduledFor = scheduled,
                          sentAt = None, attempts = 0, lastError = None,
                          createdAt = clock e, updatedAt = clock e\<rparr>;
               s1 = s\<lparr>messages := messages s @ concurrentRows e\<rparr>
           in case repo_save (saveFault e) message s1 of
                Inr s2 \<Rightarrow> (Inr (Some message), s2)
              | Inl err \<Rightarrow>
                  (if err_code err = Some ''23505'' then (Inr None, s1) else (Inl err, s1))))"

section \<open>BirthdayProducerService\<close>

definition publishBirthdayMessage :: "BirthdayMessagePayload \<Rightarrow> sys \<Rightarrow> (error + unit) \<times> sys" where
  "publishBirthdayMessage payload s =
     (if \<not> channel s then (Inl (Error ''RabbitMQ channel not initialized'' None), s)
      else (Inr (), s\<lparr>queue := queue s @ [payload]\<rparr>))"

section \<open>BirthdaySchedulerService: the per-recipient step\<close>

definition userLockKey :: "env \<Rightarrow> User \<Rightarrow> string" where
  "userLockKey e usr =
     ''birthday-user-'' @ id_u usr @ ''-'' @ string_of_int (getFullYear (serverOffset e) (clock e))"

text \<open>The \<^verbatim>\<open>finally\<close> block of the source is empty: no path releases the lock.\<close>

definition createAndQueueBirthdayMessage ::
  "env \<Rightarrow> User \<Rightarrow> string \<Rightarrow> sys \<Rightarrow> (error + unit) \<times> sys" where
  "createAndQueueBirthdayMessage e usr tz s =
     (case acquireLock (userLockKey e usr) 300 (clock e) s of
        (False, s1) \<Rightarrow> (Inr (), s1)
      | (True, s1) \<Rightarrow>
          (let scheduled = scheduledFor_of (zoneOffset e tz) (clock e) in
           case createBirthdayMessage e usr scheduled s1 of
             (Inl err, s2) \<Rightarrow> (Inl err, s2)
           | (Inr None, s2) \<Rightarrow> (Inr (), s2)
           | (Inr (Some message), s2) \<Rightarrow>
               (case publishBirthdayMessage
                       \<lparr>p_messageId = id_m message, p_userId = id_u usr, p_email = email usr,
                        p_fullName = firstName usr @ '' '' @ lastName usr\<rparr> s2 of
                  (Inl err, s3) \<Rightarrow> (Inl err, s3)
                | (Inr u, s3) \<Rightarrow> (Inr (), markAsQueued (id_m message) (clock e) s3))))"

section \<open>BirthdayConsumerService (the dispatch worker)\<close>

definition MAX_RETRY_ATTEMPTS :: int where
  "MAX_RETRY_ATTEMPTS = 5"

definition RETRY_DELAYS :: "int list" where
  "RETRY_DELAYS = [1000, 5000, 15000, 60000, 300000]"

text \<open>
  \<^verbatim>\<open>RETRY_DELAYS[attempts] || RETRY_DELAYS[RETRY_DELAYS.length - 1]\<close>: an index
  outside the array reads \<^verbatim>\<open>undefined\<close>, which is falsy, as is an entry 0.
\<close>

definition retry_delay :: "int \<Rightarrow> int" where
  "retry_delay n =
     (if 0 \<le> n \<and> n < int (length RETRY_DELAYS) \<and> RETRY_DELAYS ! nat n \<noteq> 0
      then RETRY_DELAYS ! nat n
      else RETRY_DELAYS ! (length RETRY_DELAYS - 1))"

text \<open>
  What the consumer tells the broker about the entry: \<^verbatim>\<open>ack\<close>,
  \<^verbatim>\<open>reject(msg, false)\<close> (to the dead-letter queue), or
  \<^verbatim>\<open>nack(msg, false, true)\<close> after a delay in milliseconds.
\<close>

datatype disposition = Ack | Reject_DLQ | Nack_Requeue int

text \<open>
  The external notifier is outside the program: its outcome for the call is given,
  \<open>None\<close> for a 2xx answer and \<open>Some msg\<close> for the message of the error thrown.
\<close>

definition sendBirthdayEmail ::
  "string option \<Rightarrow> string \<Rightarrow> string \<Rightarrow> sys \<Rightarrow> (error + unit) \<times> sys" where
  "sendBirthdayEmail outcome em fullName s =
     (let s1 = s\<lparr>notifier_calls := notifier_calls s @ [(em, fullName)]\<rparr>
      in case outcome of None \<Rightarrow> (Inr (), s1) | Some msg \<Rightarrow> (Inl (Error msg None), s1))"

definition processMessage ::
  "string option \<Rightarrow> int \<Rightarrow> BirthdayMessagePayload \<Rightarrow> sys \<Rightarrow> (error + unit) \<times> sys" where
  "processMessage outcome now payload s =
     (let lockKey = ''process-'' @ p_messageId payload in
      case acquireLock lockKey 120 now s of
        (False, s1) \<Rightarrow> (Inl (Error ''Could not acquire processing lock'' None), s1)
      | (True, s1) \<Rightarrow>
          (let (r, s2) =
                 (case findById (p_messageId payload) s1 of
                    None \<Rightarrow> (Inr (), s1)
                  | Some message \<Rightarrow>
                      if status message = SENT then (Inr (), s1)
                      else (case sendBirthdayEmail outcome (p_email payload) (p_fullName payload) s1 of
                              (Inl err, s') \<Rightarrow> (Inl err, s')
                            | (Inr u, s') \<Rightarrow> (Inr (), markAsSent (p_messageId payload) now s')))
           in (r, releaseLock lockKey s2)))"

definition handleFailure ::
  "int \<Rightarrow> BirthdayMessagePayload \<Rightarrow> error \<Rightarrow> sys \<Rightarrow> disposition \<times> sys" where
  "handleFailure now payload err s =
     (let n = (case findById (p_messageId payload) s of None \<Rightarrow> 0 | Some message \<Rightarrow> attempts message)
      in if n \<ge> MAX_RETRY_ATTEMPTS
         then (Reject_DLQ, markAsFailed (p_messageId payload) (err_message err) now s)
         else (Nack_Requeue (retry_delay n),
               markAsFailed (p_messageId payload) (err_message err) now s))"

text \<open>The callback of \<^verbatim>\<open>channel.consume\<close> in \<^verbatim>\<open>startConsuming\<close>.\<close>

definition consume ::
  "string option \<Rightarrow> int \<Rightarrow> BirthdayMessagePayload \<Rightarrow> sys \<Rightarrow> disposition \<times> sys" where
  "consume outcome now payload s =
     (case processMessage outcome now payload s of
        (Inr u, s1) \<Rightarrow> (Ack, s1)
      | (Inl err, s1) \<Rightarrow> handleFailure now payload err s1)"

section \<open>RecoveryService (the reconciler)\<close>

definition payload_of :: "BirthdayMessage \<Rightarrow> User \<Rightarrow> BirthdayMessagePayload" where
  "payload_of message usr =
     \<lparr>p_messageId = id_m message, p_userId = userId message, p_email = email usr,
      p_fullName = firstName usr @ '' '' @ lastName usr\<rparr>"

fun recoverPending_loop :: "int \<Rightarrow> BirthdayMessage list \<Rightarrow> sys \<Rightarrow> sys" where
  "recoverPending_loop now [] s = s"
| "recoverPending_loop now (message # rest) s =
     (case user message of
        None \<Rightarrow> recoverPending_loop now rest s
      | Some usr \<Rightarrow>
          (case publishBirthdayMessage (payload_of message usr) s of
             (Inl err, s1) \<Rightarrow> recoverPending_loop now rest s1
           | (Inr u, s1) \<Rightarrow> recoverPending_loop now rest (markAsQueued (id_m message) now s1)))"

definition recoverPendingMessages :: "int \<Rightarrow> sys \<Rightarrow> sys" where
  "recoverPendingMessages now s =
     (let pendingMessages = getPendingMessagesToQueue now s
      in if length pendingMessages = 0 then s else recoverPending_loop now pendingMessages s)"

fun retryFailed_loop :: "int \<Rightarrow> BirthdayMessage list \<Rightarrow> sys \<Rightarrow> sys" where
  "retryFailed_loop now [] s = s"
| "retryFailed_loop now (message # rest) s =
     (case user message of
        None \<Rightarrow> retryFailed_loop now rest s
      | Some usr \<Rightarrow>
          (let s0 = resetToPending (id_m message) now s in
           case publishBirthdayMessage (payload_of message usr) s0 of
             (Inl err, s1) \<Rightarrow> retryFailed_loop now rest s1
           | (Inr u, s1) \<Rightarrow> retryFailed_loop now rest (markAsQueued (id_m message) now s1)))"

definition retryFailedMessages :: "int \<Rightarrow> sys \<Rightarrow> sys" where
  "retryFailedMessages now s =
     (let failedMessages = getFailedMessagesForRetry 5 100 s
      in if length failedMessages = 0 then s else retryFailed_loop now failedMessages s)"

definition recoverUnsentMessages :: "int \<Rightarrow> sys \<Rightarrow> sys" where
  "recoverUnsentMessages now s =
     (case acquireLock ''recovery-job-lock'' 240 now s of
        (False, s1) \<Rightarrow> s1
      | (True, s1) \<Rightarrow>
          releaseLock ''recovery-job-lock'' (retryFailedMessages now (recoverPendingMessages now s1)))"

section \<open>Example data\<close>

definition ex_user :: User where
  "ex_user = \<lparr>id_u = ''u1'', firstName = ''John'', lastName = ''Doe'',
              email = ''john@example.com'', timezone = ''Pacific/Auckland'',
              birthdayMonth = 1, birthdayDay = 1\<rparr>"

definition ex_row :: "string \<Rightarrow> int \<Rightarrow> MessageStatus \<Rightarrow> int \<Rightarrow> int \<Rightarrow> BirthdayMessage" where
  "ex_row i yr st n upd =
     \<lparr>id_m = i, userId = ''u1'', user = None, year = yr, status = st,
      messageType = BIRTHDAY, scheduledFor = 1000, sentAt = None, attempts = n,
      lastError = None, createdAt = 0, updatedAt = upd\<rparr>"

definition ex_sys :: "BirthdayMessage list \<Rightarrow> sys" where
  "ex_sys rows =
     \<lparr>messages = rows, users = (\<lambda>i. if i = ''u1'' then Some ex_user else None),
      locks = (\<lambda>k. None), channel = True, queue = [], notifier_calls = []\<rparr>"

definition ex9_sys :: sys where
  "ex9_sys = ex_sys [ex_row ''a'' 2021 FAILED 5 1, ex_row ''b'' 2022 FAILED 6 2, ex_row ''c'' 2023 FAILED 2 3]"

definition ex6_sys :: sys where
  "ex6_sys = ex_sys [ex_row ''m1'' 2024 QUEUED 0 10]"

definition ex_payload :: BirthdayMessagePayload where
  "ex_payload = \<lparr>p_messageId = ''m1'', p_userId = ''u1'', p_email = ''john@example.com'',
                 p_fullName = ''John Doe''\<rparr>"

definition ex2_sent_sys :: sys where
  "ex2_sent_sys = ex_sys [(ex_row ''m1'' 2024 SENT 0 10)\<lparr>sentAt := Some 10\<rparr>]"

text \<open>The broker redelivering a requeued entry: one delivery per instant of the list.\<close>

fun redeliver ::
  "string option \<Rightarrow> BirthdayMessagePayload \<Rightarrow> int list \<Rightarrow> sys \<Rightarrow> disposition list \<times> sys" where
  "redeliver outcome payload [] s = ([], s)"
| "redeliver outcome payload (t # ts) s =
     (case consume outcome t payload s of
        (Nack_Requeue d, s1) \<Rightarrow>
          (case redeliver outcome payload ts s1 of (ds, s2) \<Rightarrow> (Nack_Requeue d # ds, s2))
      | (d, s1) \<Rightarrow> ([d], s1))"

definition ex_zones :: "string \<Rightarrow> zone" where
  "ex_zones name =
     (if name = ''Pacific/Auckland'' then (\<lambda>t. 46800000)
      else if name = ''America/New_York''
      then (\<lambda>t. if t < 1741503600000 then - 18000000 else - 14400000)
      else (\<lambda>t. 0))"

definition ex5_env :: env where
  "ex5_env = \<lparr>clock = 1735675200000, serverOffset = (\<lambda>t. 0), zoneOffset = ex_zones,
              generatedId = ''m2'', concurrentRows = [], saveFault = None\<rparr>"

definition ex5_new :: "string \<Rightarrow> MessageStatus \<Rightarrow> int \<Rightarrow> int \<Rightarrow> int \<Rightarrow> BirthdayMessage" where
  "ex5_new i st yr sched created =
     \<lparr>id_m = i, userId = ''u1'', user = None, year = yr, status = st,
      messageType = BIRTHDAY, scheduledFor = sched, sentAt = None, attempts = 0,
      lastError = None, createdAt = created, updatedAt = created\<rparr>"

definition ex5_ny_env :: env where
  "ex5_ny_env = ex5_env\<lparr>clock := 1741501800000\<rparr>"

definition ex5_local_env :: env where
  "ex5_local_env = ex5_env\<lparr>serverOffset := ex_zones ''Pacific/Auckland''\<rparr>"

definition ex_ny_user :: User where
  "ex_ny_user = ex_user\<lparr>timezone := ''America/New_York'', birthdayMonth := 3, birthdayDay := 9\<rparr>"

definition ex10_env :: env where
  "ex10_env = ex5_env\<lparr>clock := 1735675205000\<rparr>"

definition ex10_other_env :: env where
  "ex10_other_env =
     ex5_env\<lparr>clock := 1735675225000, serverOffset := (\<lambda>t. 32400000), generatedId := ''m3''\<rparr>"

definition ex10_first :: sys where
  "ex10_first = snd (createAndQueueBirthdayMessage ex10_env ex_user ''Pacific/Auckland'' (ex_sys []))"

definition ex3_sent_sys :: sys where
  "ex3_sent_sys = ex2_sent_sys\<lparr>locks := [''lock:process-m1'' \<mapsto> 500]\<rparr>"

definition ex8_dead :: "nat \<Rightarrow> BirthdayMessage" where
  "ex8_dead n = (ex_row (''d'' @ digits_of n) 2024 FAILED 6 (int n))\<lparr>userId := ''v'' @ digits_of n\<rparr>"

definition ex8_sys :: sys where
  "ex8_sys =
     (ex_sys (map ex8_dead [0..<100] @ [ex_row ''m1'' 2024 FAILED 2 1000]))
       \<lparr>users := (\<lambda>i. Some (ex_user\<lparr>id_u := i\<rparr>))\<rparr>"

section \<open>The ledger operations\<close>

lemma find_repo_update:
  assumes "\<And>m. id_m (f m) = id_m m"
  shows "find (\<lambda>m. id_m m = i) (repo_update j f now rows) =
         map_option (\<lambda>m. if i = j then (f m)\<lparr>updatedAt := now\<rparr> else m) (find (\<lambda>m. id_m m = i) rows)"
  using assms by (induction rows) (auto simp: repo_update_def)

lemma retry_delay_eq:
  "retry_delay k = (if 0 \<le> k \<and> k < 5 then [1000, 5000, 15000, 60000, 300000] ! nat k else 300000)"
proof (cases "0 \<le> k \<and> k < 5")
  case True
  then have "nat k < 5" by arith
  then have "nat k \<in> {0, 1, 2, 3, 4}" by auto
  with True show ?thesis by (auto simp: retry_delay_def RETRY_DELAYS_def)
next
  case False
  then show ?thesis by (auto simp: retry_delay_def RETRY_DELAYS_def)
qed

section \<open>Backoff schedule\<close>

text \<open>
  Claim C7. When a processing attempt fails and the record's attempt count is below the
  ceiling, the entry is requeued after the delay the schedule 1s, 5s, 15s, 60s, 300s
  (in milliseconds) gives at the attempt count; the delay expression yields the last
  value, 300s, for any index outside the schedule.
\<close>

theorem C7_retry_delay:
  assumes "findById (p_messageId payload) s = Some message"
    and "attempts message < MAX_RETRY_ATTEMPTS"
  shows "fst (handleFailure now payload err s) = Nack_Requeue (retry_delay (attempts message)) \<and>
         retry_delay k =
           (if 0 \<le> k \<and> k < 5 then [1000, 5000, 15000, 60000, 300000] ! nat k else 300000)"
proof
  show "fst (handleFailure now payload err s) = Nack_Requeue (retry_delay (attempts message))"
    using assms by (simp add: handleFailure_def Let_def)
  show "retry_delay k =
           (if 0 \<le> k \<and> k < 5 then [1000, 5000, 15000, 60000, 300000] ! nat k else 300000)"
    by (rule retry_delay_eq)
qed

theorem C7_retry_delay_witness:
  "findById ''m1'' (ex_sys [ex_row ''m1'' 2024 FAILED 2 10]) = Some ((ex_row ''m1'' 2024 FAILED 2 10)\<lparr>user := Some ex_user\<rparr>) \<and>
   fst (handleFailure 50 \<lparr>p_messageId = ''m1'', p_userId = ''u1'', p_email = ''john@example.com'', p_fullName = ''John Doe''\<rparr>
          (Error ''Email service timeout'' None) (ex_sys [ex_row ''m1'' 2024 FAILED 2 10])) = Nack_Requeue 15000 \<and>
   retry_delay 7 = 300000"
proof -
  have f: "findById (p_messageId \<lparr>p_messageId = ''m1'', p_userId = ''u1'', p_email = ''john@example.com'', p_fullName = ''John Doe''\<rparr>) (ex_sys [ex_row ''m1'' 2024 FAILED 2 10])
     = Some ((ex_row ''m1'' 2024 FAILED 2 10)\<lparr>user := Some ex_user\<rparr>)"
    by (simp add: findById_def ex_sys_def ex_row_def loadUser_def)
  have a: "attempts ((ex_row ''m1'' 2024 FAILED 2 10)\<lparr>user := Some ex_user\<rparr>) < MAX_RETRY_ATTEMPTS"
    by (simp add: ex_row_def MAX_RETRY_ATTEMPTS_def)
  show ?thesis
    using C7_retry_delay [OF f a, of 50 "Error ''Email service timeout'' None" 7] f
    by (simp add: ex_row_def retry_delay_def RETRY_DELAYS_def)
qed

section \<open>The retry query\<close>

lemma take_rows_subset: "set (take_rows limit rows) \<subseteq> set rows"
  by (auto simp: take_rows_def dest: in_set_takeD)

lemma getFailed_member:
  assumes "m \<in> set (getFailedMessagesForRetry a l s)"
  shows "\<exists>r\<in>set (messages s). m = loadUser s r \<and> status r = FAILED"
proof -
  from assms have "m \<in> set (take_rows l (sort_key (\<lambda>m. (updatedAt m, id_m m))
                     (map (loadUser s) (filter (\<lambda>m. status m = FAILED) (messages s)))))"
    by (simp add: getFailedMessagesForRetry_def)
  then have "m \<in> set (sort_key (\<lambda>m. (updatedAt m, id_m m))
                     (map (loadUser s) (filter (\<lambda>m. status m = FAILED) (messages s))))"
    by (rule subsetD [OF take_rows_subset])
  then have "m \<in> loadUser s ` {r \<in> set (messages s). status r = FAILED}"
    by simp
  then show ?thesis by blast
qed

lemma getFailed_sound:
  assumes "m \<in> set (getFailedMessagesForRetry maxAttempts limit s)"
  shows "status m = FAILED \<and> attempts m < maxAttempts"
proof -
  from assms have a: "attempts m < maxAttempts"
    by (simp add: getFailedMessagesForRetry_def)
  from getFailed_member [OF assms] have "status m = FAILED"
    by (auto simp: loadUser_def)
  with a show ?thesis by simp
qed

lemma getFailed_length:
  assumes "0 < limit"
  shows "length (getFailedMessagesForRetry maxAttempts limit s) \<le> limit"
proof -
  have "length (getFailedMessagesForRetry maxAttempts limit s)
        \<le> length (take_rows limit (sort_key (\<lambda>m. (updatedAt m, id_m m))
             (map (loadUser s) (filter (\<lambda>m. status m = FAILED) (messages s)))))"
    unfolding getFailedMessagesForRetry_def by (rule length_filter_le)
  also have "\<dots> \<le> limit" using assms by (simp add: take_rows_def)
  finally show ?thesis .
qed

lemma ex9_result: "getFailedMessagesForRetry 5 2 ex9_sys = []"
  by code_simp

text \<open>
  Claim C9, amended. Every record \<^verbatim>\<open>getFailedMessagesForRetry(maxAttempts, limit)\<close>
  returns has status failed and an attempt count below \<open>maxAttempts\<close>; when
  \<open>limit\<close> is at least 1, at most \<open>limit\<close> records are returned. The attempts
  filter runs on the rows left after the row limit, so a retryable failed record can be
  missing from the result although fewer than \<open>limit\<close> retryable records exist.
\<close>

theorem C9_getFailedMessagesForRetry:
  "(\<forall>m \<in> set (getFailedMessagesForRetry maxAttempts limit s).
       status m = FAILED \<and> attempts m < maxAttempts) \<and>
   (0 < limit \<longrightarrow> length (getFailedMessagesForRetry maxAttempts limit s) \<le> limit) \<and>
   (\<exists>s' m. m \<in> set (messages s') \<and> status m = FAILED \<and> attempts m < 5 \<and>
       length (filter (\<lambda>r. status r = FAILED \<and> attempts r < 5) (messages s')) < 2 \<and>
       id_m m \<notin> id_m ` set (getFailedMessagesForRetry 5 2 s'))"
proof (intro conjI ballI impI)
  fix m assume "m \<in> set (getFailedMessagesForRetry maxAttempts limit s)"
  then show "status m = FAILED" and "attempts m < maxAttempts"
    using getFailed_sound by blast+
next
  assume "0 < limit"
  then show "length (getFailedMessagesForRetry maxAttempts limit s) \<le> limit"
    by (rule getFailed_length)
next
  have "ex_row ''c'' 2023 FAILED 2 3 \<in> set (messages ex9_sys)"
    by (simp add: ex9_sys_def ex_sys_def)
  moreover have "status (ex_row ''c'' 2023 FAILED 2 3) = FAILED \<and> attempts (ex_row ''c'' 2023 FAILED 2 3) < 5"
    by (simp add: ex_row_def)
  moreover have "length (filter (\<lambda>r. status r = FAILED \<and> attempts r < 5) (messages ex9_sys)) < 2"
    by (simp add: ex9_sys_def ex_sys_def ex_row_def)
  moreover have "id_m (ex_row ''c'' 2023 FAILED 2 3) \<notin> id_m ` set (getFailedMessagesForRetry 5 2 ex9_sys)"
    by (simp add: ex9_result)
  ultimately show "\<exists>s' m. m \<in> set (messages s') \<and> status m = FAILED \<and> attempts m < 5 \<and>
       length (filter (\<lambda>r. status r = FAILED \<and> attempts r < 5) (messages s')) < 2 \<and>
       id_m m \<notin> id_m ` set (getFailedMessagesForRetry 5 2 s')"
    by blast
qed

theorem C9_getFailedMessagesForRetry_witness:
  "getFailedMessagesForRetry 5 3 ex9_sys = [(ex_row ''c'' 2023 FAILED 2 3)\<lparr>user := Some ex_user\<rparr>] \<and>
   status ((ex_row ''c'' 2023 FAILED 2 3)\<lparr>user := Some ex_user\<rparr>) = FAILED \<and>
   attempts ((ex_row ''c'' 2023 FAILED 2 3)\<lparr>user := Some ex_user\<rparr>) < 5 \<and>
   length (getFailedMessagesForRetry 5 3 ex9_sys) \<le> 3"
proof -
  have r: "getFailedMessagesForRetry 5 3 ex9_sys = [(ex_row ''c'' 2023 FAILED 2 3)\<lparr>user := Some ex_user\<rparr>]"
    by code_simp
  show ?thesis
    using C9_getFailedMessagesForRetry [of 5 3 ex9_sys] unfolding r by simp
qed

text \<open>
  With \<open>limit\<close> 0 the query has no row limit: the one retryable record comes back,
  and the result is longer than the limit.
\<close>

theorem C9_limit_zero_counterexample:
  "getFailedMessagesForRetry 5 0 ex9_sys = [(ex_row ''c'' 2023 FAILED 2 3)\<lparr>user := Some ex_user\<rparr>] \<and>
   \<not> length (getFailedMessagesForRetry 5 0 ex9_sys) \<le> 0"
proof -
  have r: "getFailedMessagesForRetry 5 0 ex9_sys = [(ex_row ''c'' 2023 FAILED 2 3)\<lparr>user := Some ex_user\<rparr>]"
    by code_simp
  show ?thesis unfolding r by simp
qed

section \<open>Reading a record back after a transition\<close>

lemma findById_markAsQueued:
  "findById i (markAsQueued j now s) =
     map_option (\<lambda>m. if i = j then m\<lparr>status := QUEUED, updatedAt := now\<rparr> else m) (findById i s)"
  by (cases "find (\<lambda>m. id_m m = i) (messages s)")
     (simp_all add: findById_def markAsQueued_def find_repo_update loadUser_def)

lemma findById_markAsSent:
  "findById i (markAsSent j now s) =
     map_option (\<lambda>m. if i = j then m\<lparr>status := SENT, sentAt := Some now, updatedAt := now\<rparr> else m)
       (findById i s)"
  by (cases "find (\<lambda>m. id_m m = i) (messages s)")
     (simp_all add: findById_def markAsSent_def find_repo_update loadUser_def)

lemma findById_resetToPending:
  "findById i (resetToPending j now s) =
     map_option (\<lambda>m. if i = j then m\<lparr>status := PENDING, updatedAt := now\<rparr> else m) (findById i s)"
  by (cases "find (\<lambda>m. id_m m = i) (messages s)")
     (simp_all add: findById_def resetToPending_def find_repo_update loadUser_def)

lemma findById_markAsFailed_increment:
  "findById i (markAsFailed_increment j now s) =
     map_option (\<lambda>m. if i = j then m\<lparr>attempts := attempts m + 1, updatedAt := now\<rparr> else m)
       (findById i s)"
  by (cases "find (\<lambda>m. id_m m = i) (messages s)")
     (simp_all add: findById_def markAsFailed_increment_def find_repo_update loadUser_def)

lemma findById_markAsFailed_update:
  "findById i (markAsFailed_update j err now s) =
     map_option (\<lambda>m. if i = j then m\<lparr>status := FAILED, lastError := Some err, updatedAt := now\<rparr> else m)
       (findById i s)"
  by (cases "find (\<lambda>m. id_m m = i) (messages s)")
     (simp_all add: findById_def markAsFailed_update_def find_repo_update loadUser_def)

lemma findById_markAsFailed:
  "findById i (markAsFailed j err now s) =
     map_option (\<lambda>m. if i = j
                      then m\<lparr>attempts := attempts m + 1, status := FAILED, lastError := Some err,
                             updatedAt := now\<rparr>
                      else m)
       (findById i s)"
  by (cases "findById i s")
     (simp_all add: markAsFailed_def findById_markAsFailed_update findById_markAsFailed_increment)

text \<open>
  Claim C6, amended. For a record that exists, \<^verbatim>\<open>markAsFailed\<close> leaves it with
  status failed, the given error text and the attempt count raised by exactly one. It
  does so in two statements, the increment first and the status write second: the state
  between them, with the count already raised and status and last error still the old
  ones, is a state of the ledger.
\<close>

theorem C6_markAsFailed:
  assumes "findById messageId s = Some m"
  shows "findById messageId (markAsFailed messageId err now s) =
           Some (m\<lparr>attempts := attempts m + 1, status := FAILED, lastError := Some err,
                   updatedAt := now\<rparr>) \<and>
         markAsFailed_states messageId err now s =
           [markAsFailed_increment messageId now s, markAsFailed messageId err now s] \<and>
         findById messageId (markAsFailed_increment messageId now s) =
           Some (m\<lparr>attempts := attempts m + 1, updatedAt := now\<rparr>)"
proof (intro conjI)
  show "findById messageId (markAsFailed messageId err now s) =
           Some (m\<lparr>attempts := attempts m + 1, status := FAILED, lastError := Some err,
                   updatedAt := now\<rparr>)"
    using assms by (simp add: findById_markAsFailed)
  show "markAsFailed_states messageId err now s =
           [markAsFailed_increment messageId now s, markAsFailed messageId err now s]"
    by (simp add: markAsFailed_states_def markAsFailed_def Let_def)
  show "findById messageId (markAsFailed_increment messageId now s) =
           Some (m\<lparr>attempts := attempts m + 1, updatedAt := now\<rparr>)"
    using assms by (simp add: findById_markAsFailed_increment)
qed

theorem C6_markAsFailed_witness:
  "findById ''m1'' ex6_sys = Some ((ex_row ''m1'' 2024 QUEUED 0 10)\<lparr>user := Some ex_user\<rparr>) \<and>
   findById ''m1'' (markAsFailed ''m1'' ''boom'' 50 ex6_sys) =
     Some ((ex_row ''m1'' 2024 FAILED 1 50)\<lparr>user := Some ex_user, lastError := Some ''boom''\<rparr>)"
proof -
  have f: "findById ''m1'' ex6_sys = Some ((ex_row ''m1'' 2024 QUEUED 0 10)\<lparr>user := Some ex_user\<rparr>)"
    by (simp add: findById_def ex6_sys_def ex_sys_def ex_row_def loadUser_def)
  show ?thesis
    using C6_markAsFailed [OF f, of "''boom''" 50] f by (simp add: ex_row_def)
qed

text \<open>
  The increment is not atomic with the status write: after the first of the two
  statements a queued record shows attempt count 1, status queued and no last error.
\<close>

theorem C6_not_atomic_counterexample:
  "findById ''m1'' (hd (markAsFailed_states ''m1'' ''boom'' 50 ex6_sys)) =
     Some ((ex_row ''m1'' 2024 QUEUED 1 50)\<lparr>user := Some ex_user\<rparr>) \<and>
   length (markAsFailed_states ''m1'' ''boom'' 50 ex6_sys) = 2"
  by (simp add: markAsFailed_states_def markAsFailed_increment_def repo_update_def findById_def
        ex6_sys_def ex_sys_def ex_row_def loadUser_def Let_def)

section \<open>The dispatch worker\<close>

lemma loadUser_frame [simp]:
  "loadUser (s\<lparr>locks := l\<rparr>) = loadUser s"
  "loadUser (s\<lparr>notifier_calls := c\<rparr>) = loadUser s"
  "loadUser (s\<lparr>queue := q\<rparr>) = loadUser s"
  "loadUser (s\<lparr>messages := r\<rparr>) = loadUser s"
  by (rule ext, simp add: loadUser_def)+

lemma findById_frame [simp]:
  "findById i (s\<lparr>locks := l\<rparr>) = findById i s"
  "findById i (s\<lparr>notifier_calls := c\<rparr>) = findById i s"
  "findById i (s\<lparr>queue := q\<rparr>) = findById i s"
  by (simp_all add: findById_def)

lemma findById_releaseLock [simp]: "findById i (releaseLock k s) = findById i s"
  by (simp add: releaseLock_def)

lemma processMessage_drop:
  assumes "\<not> isLocked (''process-'' @ p_messageId payload) now s"
    and "findById (p_messageId payload) s = None \<or>
         (\<exists>m. findById (p_messageId payload) s = Some m \<and> status m = SENT)"
  shows "processMessage outcome now payload s =
           (Inr (), s\<lparr>locks := (locks s)(''lock:process-'' @ p_messageId payload := None)\<rparr>)"
  using assms
  by (auto simp: processMessage_def acquireLock_def releaseLock_def)

lemma processMessage_send:
  assumes "\<not> isLocked (''process-'' @ p_messageId payload) now s"
    and "findById (p_messageId payload) s = Some m" and "status m \<noteq> SENT"
  shows "processMessage outcome now payload s =
           (case outcome of
              None \<Rightarrow> (Inr (), releaseLock (''process-'' @ p_messageId payload)
                          (markAsSent (p_messageId payload) now
                             (s\<lparr>locks := (locks s)(''lock:process-'' @ p_messageId payload \<mapsto> now + 120 * 1000),
                                notifier_calls := notifier_calls s @ [(p_email payload, p_fullName payload)]\<rparr>)))
            | Some msg \<Rightarrow> (Inl (Error msg None),
                          s\<lparr>locks := (locks s)(''lock:process-'' @ p_messageId payload := None),
                            notifier_calls := notifier_calls s @ [(p_email payload, p_fullName payload)]\<rparr>))"
  using assms
  by (auto simp: processMessage_def acquireLock_def releaseLock_def sendBirthdayEmail_def Let_def
        split: option.splits)

text \<open>
  Claim C2. A queue entry is processed with the per-record lock free, so that the worker
  acquires it. If no record has the entry's message id, or the record is already sent,
  \<^verbatim>\<open>processMessage\<close> returns normally, the entry is acknowledged, the notifier is
  not called and the ledger is unchanged. If the record is pending, queued or failed,
  the notifier is called once with the entry's email and name, and when that call
  succeeds the record is marked sent and the entry is acknowledged.
\<close>

theorem C2_processMessage_idempotent:
  assumes "\<not> isLocked (''process-'' @ p_messageId payload) now s"
  shows "(findById (p_messageId payload) s = None \<or>
          (\<exists>m. findById (p_messageId payload) s = Some m \<and> status m = SENT) \<longrightarrow>
            fst (processMessage outcome now payload s) = Inr () \<and>
            fst (consume outcome now payload s) = Ack \<and>
            notifier_calls (snd (consume outcome now payload s)) = notifier_calls s \<and>
            messages (snd (consume outcome now payload s)) = messages s) \<and>
         (\<forall>m. findById (p_messageId payload) s = Some m \<and> status m \<in> {PENDING, QUEUED, FAILED} \<longrightarrow>
            notifier_calls (snd (consume outcome now payload s)) =
              notifier_calls s @ [(p_email payload, p_fullName payload)] \<and>
            (outcome = None \<longrightarrow>
               fst (consume outcome now payload s) = Ack \<and>
               findById (p_messageId payload) (snd (consume outcome now payload s)) =
                 Some (m\<lparr>status := SENT, sentAt := Some now, updatedAt := now\<rparr>)))"
proof (intro conjI impI allI)
  assume d: "findById (p_messageId payload) s = None \<or>
          (\<exists>m. findById (p_messageId payload) s = Some m \<and> status m = SENT)"
  note p = processMessage_drop [OF assms d, of outcome]
  show "fst (processMessage outcome now payload s) = Inr ()" by (simp add: p)
  show "fst (consume outcome now payload s) = Ack" by (simp add: consume_def p)
  show "notifier_calls (snd (consume outcome now payload s)) = notifier_calls s"
    by (simp add: consume_def p)
  show "messages (snd (consume outcome now payload s)) = messages s"
    by (simp add: consume_def p)
next
  fix m
  assume a: "findById (p_messageId payload) s = Some m \<and> status m \<in> {PENDING, QUEUED, FAILED}"
  then have f: "findById (p_messageId payload) s = Some m" and ns: "status m \<noteq> SENT" by auto
  note p = processMessage_send [OF assms f ns]
  show "notifier_calls (snd (consume outcome now payload s)) =
              notifier_calls s @ [(p_email payload, p_fullName payload)]"
    by (cases outcome)
       (simp_all add: consume_def p handleFailure_def markAsFailed_def markAsFailed_update_def
          markAsFailed_increment_def markAsSent_def releaseLock_def Let_def)
  {
    assume o: "outcome = None"
    show "fst (consume outcome now payload s) = Ack" by (simp add: consume_def p o)
    show "findById (p_messageId payload) (snd (consume outcome now payload s)) =
                 Some (m\<lparr>status := SENT, sentAt := Some now, updatedAt := now\<rparr>)"
      using f by (simp add: consume_def p o findById_markAsSent)
  }
qed

lemma ex_not_locked: "\<not> isLocked k t (ex_sys rows)"
  by (simp add: isLocked_def ex_sys_def)

theorem C2_processMessage_idempotent_witness:
  "fst (consume None 100 ex_payload (ex_sys [])) = Ack \<and>
   messages (snd (consume None 100 ex_payload (ex_sys []))) = [] \<and>
   notifier_calls (snd (consume None 100 ex_payload ex2_sent_sys)) = [] \<and>
   messages (snd (consume None 100 ex_payload ex2_sent_sys)) = messages ex2_sent_sys \<and>
   notifier_calls (snd (consume None 100 ex_payload ex6_sys)) = [(''john@example.com'', ''John Doe'')] \<and>
   findById ''m1'' (snd (consume None 100 ex_payload ex6_sys)) =
     Some ((ex_row ''m1'' 2024 SENT 0 100)\<lparr>user := Some ex_user, sentAt := Some 100\<rparr>)"
proof -
  have l1: "\<not> isLocked (''process-'' @ p_messageId ex_payload) 100 (ex_sys [])"
    by (rule ex_not_locked)
  have l2: "\<not> isLocked (''process-'' @ p_messageId ex_payload) 100 ex2_sent_sys"
    unfolding ex2_sent_sys_def by (rule ex_not_locked)
  have l3: "\<not> isLocked (''process-'' @ p_messageId ex_payload) 100 ex6_sys"
    unfolding ex6_sys_def by (rule ex_not_locked)
  have f1: "findById (p_messageId ex_payload) (ex_sys []) = None"
    by (simp add: findById_def ex_sys_def)
  have f2: "findById (p_messageId ex_payload) ex2_sent_sys =
              Some ((ex_row ''m1'' 2024 SENT 0 10)\<lparr>user := Some ex_user, sentAt := Some 10\<rparr>)"
    by (simp add: findById_def ex2_sent_sys_def ex_sys_def ex_row_def ex_payload_def loadUser_def)
  have f3: "findById (p_messageId ex_payload) ex6_sys =
              Some ((ex_row ''m1'' 2024 QUEUED 0 10)\<lparr>user := Some ex_user\<rparr>)"
    by (simp add: findById_def ex6_sys_def ex_sys_def ex_row_def ex_payload_def loadUser_def)
  have p: "p_messageId ex_payload = ''m1''" "p_email ex_payload = ''john@example.com''"
    "p_fullName ex_payload = ''John Doe''"
    by (simp_all add: ex_payload_def)
  have e: "notifier_calls (ex_sys []) = []" "messages (ex_sys []) = []"
    "notifier_calls ex2_sent_sys = []" "notifier_calls ex6_sys = []"
    by (simp_all add: ex_sys_def ex2_sent_sys_def ex6_sys_def)
  have w1: "fst (consume None 100 ex_payload (ex_sys [])) = Ack \<and>
            messages (snd (consume None 100 ex_payload (ex_sys []))) = []"
    using C2_processMessage_idempotent [OF l1, of None] f1 e by simp
  have w2: "notifier_calls (snd (consume None 100 ex_payload ex2_sent_sys)) = [] \<and>
            messages (snd (consume None 100 ex_payload ex2_sent_sys)) = messages ex2_sent_sys"
    using C2_processMessage_idempotent [OF l2, of None] f2 e by (simp add: ex_row_def)
  have w3: "notifier_calls (snd (consume None 100 ex_payload ex6_sys)) = [(''john@example.com'', ''John Doe'')] \<and>
            findById ''m1'' (snd (consume None 100 ex_payload ex6_sys)) =
              Some ((ex_row ''m1'' 2024 SENT 0 100)\<lparr>user := Some ex_user, sentAt := Some 100\<rparr>)"
    using C2_processMessage_idempotent [OF l3, of None] f3 e p by (simp add: ex_row_def)
  from w1 w2 w3 show ?thesis by auto
qed

text \<open>
  Claim C3 at a record already sent whose processing lock another worker holds. The
  attempt fails at the lock, and the failure handler then marks the record failed, with
  attempt count 1 and the lock message as last error, and requeues the entry. At the
  redelivery, the lock having expired, the notifier is called for the record that had
  been sent.
\<close>

theorem C3_lock_miss_marks_failed:
  "isLocked ''process-m1'' 100 ex3_sent_sys \<and>
   findById ''m1'' ex3_sent_sys =
     Some ((ex_row ''m1'' 2024 SENT 0 10)\<lparr>user := Some ex_user, sentAt := Some 10\<rparr>) \<and>
   fst (consume None 100 ex_payload ex3_sent_sys) = Nack_Requeue 1000 \<and>
   findById ''m1'' (snd (consume None 100 ex_payload ex3_sent_sys)) =
     Some ((ex_row ''m1'' 2024 FAILED 1 100)
             \<lparr>user := Some ex_user, sentAt := Some 10,
              lastError := Some ''Could not acquire processing lock''\<rparr>) \<and>
   notifier_calls (snd (consume None 1100 ex_payload (snd (consume None 100 ex_payload ex3_sent_sys)))) =
     [(''john@example.com'', ''John Doe'')]"
  by (simp add: consume_def processMessage_def acquireLock_def releaseLock_def isLocked_def
        sendBirthdayEmail_def handleFailure_def retry_delay_def RETRY_DELAYS_def
        markAsFailed_def markAsFailed_update_def markAsFailed_increment_def markAsSent_def
        repo_update_def findById_def loadUser_def MAX_RETRY_ATTEMPTS_def Let_def
        ex3_sent_sys_def ex2_sent_sys_def ex_sys_def ex_row_def ex_payload_def)

text \<open>
  Claim C1 at a queued record whose notifier call fails at every delivery. The fifth
  failure requeues the entry (after 300s) and leaves attempt count 5; only the sixth
  failure rejects the entry to the dead-letter queue, and it leaves attempt count 6.
\<close>

theorem C1_fifth_failure_requeued:
  "fst (redeliver (Some ''Email service timeout'') ex_payload [100, 1100, 6100, 21100, 81100] ex6_sys) =
     [Nack_Requeue 1000, Nack_Requeue 5000, Nack_Requeue 15000, Nack_Requeue 60000, Nack_Requeue 300000] \<and>
   findById ''m1''
     (snd (redeliver (Some ''Email service timeout'') ex_payload [100, 1100, 6100, 21100, 81100] ex6_sys)) =
     Some ((ex_row ''m1'' 2024 FAILED 5 81100)
             \<lparr>user := Some ex_user, lastError := Some ''Email service timeout''\<rparr>) \<and>
   fst (redeliver (Some ''Email service timeout'') ex_payload
          [100, 1100, 6100, 21100, 81100, 381100] ex6_sys) =
     [Nack_Requeue 1000, Nack_Requeue 5000, Nack_Requeue 15000, Nack_Requeue 60000, Nack_Requeue 300000,
      Reject_DLQ] \<and>
   findById ''m1''
     (snd (redeliver (Some ''Email service timeout'') ex_payload
             [100, 1100, 6100, 21100, 81100, 381100] ex6_sys)) =
     Some ((ex_row ''m1'' 2024 FAILED 6 381100)
             \<lparr>user := Some ex_user, lastError := Some ''Email service timeout''\<rparr>)"
  by (simp add: consume_def processMessage_def acquireLock_def releaseLock_def isLocked_def
        sendBirthdayEmail_def handleFailure_def retry_delay_def RETRY_DELAYS_def
        markAsFailed_def markAsFailed_update_def markAsFailed_increment_def repo_update_def
        findById_def loadUser_def MAX_RETRY_ATTEMPTS_def Let_def
        ex6_sys_def ex_sys_def ex_row_def ex_payload_def)

section \<open>Creating a record\<close>

lemma find_None_list_ex: "find P xs = None \<Longrightarrow> \<not> list_ex P xs"
  by (induction xs) (auto split: if_splits)

text \<open>
  Claim C4. The year is that of the scheduled-for instant. With the store answering,
  \<^verbatim>\<open>createBirthdayMessage\<close> inserts and returns a new pending record when no
  record for the recipient and year exists; it returns null and inserts nothing when the
  existence check finds one, and also when the check passes but another instance has
  inserted one before the insert, or the insert raises error code 23505: in no
  such case is an error raised.
\<close>

theorem C4_createBirthdayMessage:
  "(find (same_key usr (getFullYear (serverOffset e) scheduled)) (messages s) = None \<and>
    \<not> list_ex (same_key usr (getFullYear (serverOffset e) scheduled)) (concurrentRows e) \<and>
    saveFault e = None \<longrightarrow>
      (\<exists>message. createBirthdayMessage e usr scheduled s =
           (Inr (Some message), s\<lparr>messages := messages s @ concurrentRows e @ [message]\<rparr>) \<and>
         status message = PENDING \<and> userId message = id_u usr \<and>
         year message = getFullYear (serverOffset e) scheduled \<and>
         scheduledFor message = scheduled \<and> attempts message = 0)) \<and>
   (find (same_key usr (getFullYear (serverOffset e) scheduled)) (messages s) \<noteq> None \<longrightarrow>
      createBirthdayMessage e usr scheduled s = (Inr None, s)) \<and>
   (find (same_key usr (getFullYear (serverOffset e) scheduled)) (messages s) = None \<and>
    list_ex (same_key usr (getFullYear (serverOffset e) scheduled)) (concurrentRows e) \<and>
    saveFault e = None \<longrightarrow>
      createBirthdayMessage e usr scheduled s =
        (Inr None, s\<lparr>messages := messages s @ concurrentRows e\<rparr>)) \<and>
   (find (same_key usr (getFullYear (serverOffset e) scheduled)) (messages s) = None \<and>
    (\<exists>msg. saveFault e = Some (Error msg (Some ''23505''))) \<longrightarrow>
      createBirthdayMessage e usr scheduled s =
        (Inr None, s\<lparr>messages := messages s @ concurrentRows e\<rparr>))"
proof (intro conjI impI)
  assume a: "find (same_key usr (getFullYear (serverOffset e) scheduled)) (messages s) = None \<and>
    \<not> list_ex (same_key usr (getFullYear (serverOffset e) scheduled)) (concurrentRows e) \<and>
    saveFault e = None"
  then have "\<not> list_ex (same_key usr (getFullYear (serverOffset e) scheduled)) (messages s)"
    by (blast dest: find_None_list_ex)
  with a show "\<exists>message. createBirthdayMessage e usr scheduled s =
           (Inr (Some message), s\<lparr>messages := messages s @ concurrentRows e @ [message]\<rparr>) \<and>
         status message = PENDING \<and> userId message = id_u usr \<and>
         year message = getFullYear (serverOffset e) scheduled \<and>
         scheduledFor message = scheduled \<and> attempts message = 0"
    by (simp add: createBirthdayMessage_def repo_save_def Let_def)
next
  assume "find (same_key usr (getFullYear (serverOffset e) scheduled)) (messages s) \<noteq> None"
  then show "createBirthdayMessage e usr scheduled s = (Inr None, s)"
    by (auto simp: createBirthdayMessage_def Let_def)
next
  assume "find (same_key usr (getFullYear (serverOffset e) scheduled)) (messages s) = None \<and>
    list_ex (same_key usr (getFullYear (serverOffset e) scheduled)) (concurrentRows e) \<and>
    saveFault e = None"
  then show "createBirthdayMessage e usr scheduled s =
        (Inr None, s\<lparr>messages := messages s @ concurrentRows e\<rparr>)"
    by (simp add: createBirthdayMessage_def repo_save_def Let_def)
next
  assume "find (same_key usr (getFullYear (serverOffset e) scheduled)) (messages s) = None \<and>
    (\<exists>msg. saveFault e = Some (Error msg (Some ''23505'')))"
  then show "createBirthdayMessage e usr scheduled s =
        (Inr None, s\<lparr>messages := messages s @ concurrentRows e\<rparr>)"
    by (auto simp: createBirthdayMessage_def repo_save_def Let_def)
qed

lemma ex5_years:
  "getFullYear (serverOffset ex5_env) 1735675200000 = 2024"
  "getFullYear (zoneOffset ex5_env ''Pacific/Auckland'') 1735675200000 = 2025"
  "scheduledFor_of (zoneOffset ex5_env ''Pacific/Auckland'') 1735675200000 = 1735675200000"
  by code_simp+

theorem C4_createBirthdayMessage_witness:
  "(\<exists>message. createBirthdayMessage ex5_env ex_user 1735675200000 (ex_sys []) =
       (Inr (Some message), (ex_sys [])\<lparr>messages := [message]\<rparr>) \<and> status message = PENDING) \<and>
   createBirthdayMessage ex5_env ex_user 1735675200000 ex2_sent_sys = (Inr None, ex2_sent_sys) \<and>
   createBirthdayMessage (ex5_env\<lparr>concurrentRows := [ex_row ''m7'' 2024 PENDING 0 10]\<rparr>) ex_user
       1735675200000 (ex_sys []) =
     (Inr None, (ex_sys [])\<lparr>messages := [ex_row ''m7'' 2024 PENDING 0 10]\<rparr>) \<and>
   createBirthdayMessage (ex5_env\<lparr>saveFault := Some (Error ''duplicate key'' (Some ''23505''))\<rparr>)
       ex_user 1735675200000 (ex_sys []) =
     (Inr None, (ex_sys [])\<lparr>messages := []\<rparr>)"
proof -
  have y: "getFullYear (serverOffset ex5_env) 1735675200000 = 2024"
    by (rule ex5_years)
  have e: "messages (ex_sys []) = []" "concurrentRows ex5_env = []" "saveFault ex5_env = None"
    "id_u ex_user = ''u1''"
    by (simp_all add: ex_sys_def ex5_env_def ex_user_def)
  have a: "\<exists>message. createBirthdayMessage ex5_env ex_user 1735675200000 (ex_sys []) =
       (Inr (Some message), (ex_sys [])\<lparr>messages := [message]\<rparr>) \<and> status message = PENDING"
    using C4_createBirthdayMessage [of ex_user ex5_env 1735675200000 "ex_sys []"]
    by (simp add: y e) blast
  have b: "createBirthdayMessage ex5_env ex_user 1735675200000 ex2_sent_sys = (Inr None, ex2_sent_sys)"
    using C4_createBirthdayMessage [of ex_user ex5_env 1735675200000 ex2_sent_sys]
    by (simp add: y e ex2_sent_sys_def ex_sys_def ex_row_def)
  have c: "createBirthdayMessage (ex5_env\<lparr>concurrentRows := [ex_row ''m7'' 2024 PENDING 0 10]\<rparr>) ex_user
       1735675200000 (ex_sys []) =
     (Inr None, (ex_sys [])\<lparr>messages := [ex_row ''m7'' 2024 PENDING 0 10]\<rparr>)"
    using C4_createBirthdayMessage [of ex_user "ex5_env\<lparr>concurrentRows := [ex_row ''m7'' 2024 PENDING 0 10]\<rparr>"
        1735675200000 "ex_sys []"]
    by (simp add: y e) (simp add: ex_row_def)
  have d: "createBirthdayMessage (ex5_env\<lparr>saveFault := Some (Error ''duplicate key'' (Some ''23505''))\<rparr>)
       ex_user 1735675200000 (ex_sys []) =
     (Inr None, (ex_sys [])\<lparr>messages := []\<rparr>)"
    using C4_createBirthdayMessage [of ex_user "ex5_env\<lparr>saveFault := Some (Error ''duplicate key'' (Some ''23505''))\<rparr>"
        1735675200000 "ex_sys []"]
    by (simp add: y e)
  from a b c d show ?thesis by blast
qed

section \<open>The scheduled-for instant\<close>

lemma mod_shift: "(x::int) = l + k * n \<Longrightarrow> x mod n = l mod n"
  by simp

lemma set_hour_mod: "set_hour h l mod 3600000 = l mod 3600000"
  by (rule mod_shift [where k = "h - (l mod 86400000) div 3600000"])
     (simp add: set_hour_def algebra_simps)

lemma set_minute_mod: "set_minute m l mod 60000 = l mod 60000"
  by (rule mod_shift [where k = "m - (l mod 3600000) div 60000"])
     (simp add: set_minute_def algebra_simps)

lemma split_day: "(l::int) mod 86400000 = ((l mod 86400000) div 3600000) * 3600000 + l mod 3600000"
proof -
  have "(l mod 86400000) mod 3600000 = l mod 3600000"
    by (rule mod_mod_cancel) simp
  then show ?thesis
    using div_mult_mod_eq [of "l mod 86400000" 3600000] by simp
qed

lemma split_hour: "(l::int) mod 3600000 = ((l mod 3600000) div 60000) * 60000 + l mod 60000"
proof -
  have "(l mod 3600000) mod 60000 = l mod 60000"
    by (rule mod_mod_cancel) simp
  then show ?thesis
    using div_mult_mod_eq [of "l mod 3600000" 60000] by simp
qed

lemma split_minute: "(l::int) mod 60000 = ((l mod 60000) div 1000) * 1000 + l mod 1000"
proof -
  have "(l mod 60000) mod 1000 = l mod 1000"
    by (rule mod_mod_cancel) simp
  then show ?thesis
    using div_mult_mod_eq [of "l mod 60000" 1000] by simp
qed

lemma set_hour_mod_minute: "set_hour h l mod 60000 = l mod 60000"
proof -
  have "set_hour h l mod 3600000 mod 60000 = set_hour h l mod 60000"
    by (rule mod_mod_cancel) simp
  moreover have "l mod 3600000 mod 60000 = l mod 60000"
    by (rule mod_mod_cancel) simp
  ultimately show ?thesis by (simp add: set_hour_mod)
qed

lemma nine_local:
  "set_second 0 (set_minute 0 (set_hour 9 l)) = (l div 86400000) * 86400000 + 32400000 + l mod 1000"
proof -
  define a where "a = (l mod 86400000) div 3600000"
  define b where "b = (l mod 3600000) div 60000"
  define c where "c = (l mod 60000) div 1000"
  define q where "q = l div 86400000"
  define r where "r = l mod 1000"
  have d: "l = q * 86400000 + l mod 86400000" by (simp add: q_def)
  have e1: "l mod 86400000 = a * 3600000 + l mod 3600000"
    unfolding a_def by (rule split_day)
  have e2: "l mod 3600000 = b * 60000 + l mod 60000"
    unfolding b_def by (rule split_hour)
  have e3: "l mod 60000 = c * 1000 + r"
    unfolding c_def r_def by (rule split_minute)
  have l: "l = q * 86400000 + a * 3600000 + b * 60000 + c * 1000 + r"
    using d e1 e2 e3 by arith
  have h: "set_hour 9 l = l - a * 3600000 + 32400000"
    by (simp add: set_hour_def a_def)
  have m: "set_minute 0 (set_hour 9 l) = set_hour 9 l - b * 60000"
    by (simp add: set_minute_def set_hour_mod b_def)
  have m1: "set_minute 0 (set_hour 9 l) mod 60000 = l mod 60000"
    by (simp add: set_minute_mod set_hour_mod_minute)
  have s: "set_second 0 (set_minute 0 (set_hour 9 l)) = set_minute 0 (set_hour 9 l) - c * 1000"
    by (simp add: set_second_def m1 c_def)
  have "set_second 0 (set_minute 0 (set_hour 9 l)) = q * 86400000 + 32400000 + r"
    using s m h l by arith
  then show ?thesis by (simp add: q_def r_def)
qed

lemma set_hour_nine:
  "set_hour 9 l = (l div 86400000) * 86400000 + 32400000 + l mod 3600000"
proof -
  define a where "a = (l mod 86400000) div 3600000"
  define q where "q = l div 86400000"
  have d: "l = q * 86400000 + l mod 86400000" by (simp add: q_def)
  have e1: "l mod 86400000 = a * 3600000 + l mod 3600000"
    unfolding a_def by (rule split_day)
  have h: "set_hour 9 l = l - a * 3600000 + 32400000"
    by (simp add: set_hour_def a_def)
  have "set_hour 9 l = q * 86400000 + 32400000 + l mod 3600000"
    using h d e1 by arith
  then show ?thesis by (simp add: q_def)
qed

lemma set_minute_zero_hour:
  "set_minute 0 (set_hour 9 l) = (l div 86400000) * 86400000 + 32400000 + l mod 60000"
proof -
  define b where "b = (l mod 3600000) div 60000"
  define q where "q = l div 86400000"
  define r1 where "r1 = l mod 3600000"
  define r2 where "r2 = l mod 60000"
  have hn: "set_hour 9 l = q * 86400000 + 32400000 + r1"
    by (simp add: set_hour_nine q_def r1_def)
  have e2: "r1 = b * 60000 + r2"
    unfolding b_def r1_def r2_def by (rule split_hour)
  have m: "set_minute 0 (set_hour 9 l) = set_hour 9 l - b * 60000"
    by (simp add: set_minute_def set_hour_mod b_def)
  have "set_minute 0 (set_hour 9 l) = set_hour 9 l - b * 60000"
    by (rule m)
  also have "\<dots> = q * 86400000 + 32400000 + r1 - b * 60000"
    by (simp only: hn)
  also have "\<dots> = q * 86400000 + 32400000 + r2"
    by (simp add: e2)
  finally show ?thesis by (simp add: q_def r2_def)
qed

lemma scheduledFor_of_stable:
  assumes st: "\<forall>u. local_nine z t - nine_offset z t \<le> u \<and>
                    u < local_nine z t - nine_offset z t + 3600000 \<longrightarrow>
                  z u = nine_offset z t"
  shows "scheduledFor_of z t = local_nine z t + (t + z t) mod 1000 - nine_offset z t"
    and "z (scheduledFor_of z t) = nine_offset z t"
proof -
  define l where "l = t + z t"
  define off where "off = nine_offset z t"
  define W where "W = local_nine z t"
  have W: "W = (l div 86400000) * 86400000 + 32400000"
    by (simp add: W_def local_nine_def l_def)
  have stable: "z u = off" if "W - off \<le> u" "u < W - off + 3600000" for u
    using st that by (simp add: W_def off_def)
  have r1: "0 \<le> l mod 3600000" "l mod 3600000 < 3600000" by simp_all
  have r2: "0 \<le> l mod 60000" "l mod 60000 < 60000" by simp_all
  have r3: "0 \<le> l mod 1000" "l mod 1000 < 1000" by simp_all
  have t1: "moment_hour z 9 t = W + l mod 3600000 - off"
    by (simp add: moment_hour_def Let_def l_def [symmetric] off_def nine_offset_def set_hour_nine W)
  have z1: "z (moment_hour z 9 t) = off"
    unfolding t1 using r1 by (intro stable) arith+
  have t2: "moment_minute z 0 (moment_hour z 9 t) = W + l mod 60000 - off"
  proof -
    have "moment_hour z 9 t + off = set_hour 9 l"
      by (simp add: t1 set_hour_nine W)
    then show ?thesis
      by (simp add: moment_minute_def z1 set_minute_zero_hour W)
  qed
  have z2: "z (moment_minute z 0 (moment_hour z 9 t)) = off"
    unfolding t2 using r2 by (intro stable) arith+
  have t3: "scheduledFor_of z t = W + l mod 1000 - off"
  proof -
    have "moment_minute z 0 (moment_hour z 9 t) + off = set_minute 0 (set_hour 9 l)"
      by (simp add: t2 set_minute_zero_hour W)
    then show ?thesis
      by (simp add: scheduledFor_of_def moment_second_def z2 nine_local W)
  qed
  show "scheduledFor_of z t = local_nine z t + (t + z t) mod 1000 - nine_offset z t"
    using t3 by (simp add: W_def l_def off_def)
  show "z (scheduledFor_of z t) = nine_offset z t"
    unfolding t3 off_def [symmetric] using r3 by (intro stable) arith+
qed

lemma scheduledFor_of_second:
  assumes "\<forall>u. local_nine z t - nine_offset z t \<le> u \<and>
                u < local_nine z t - nine_offset z t + 3600000 \<longrightarrow>
              z u = nine_offset z t"
  shows "((scheduledFor_of z t + z (scheduledFor_of z t)) div 1000) * 1000 = local_nine z t"
proof -
  define q where "q = (t + z t) div 86400000"
  define r where "r = (t + z t) mod 1000"
  have r: "0 \<le> r" "r < 1000" by (simp_all add: r_def)
  have s: "scheduledFor_of z t + z (scheduledFor_of z t) = local_nine z t + r"
    by (simp only: scheduledFor_of_stable(2) [OF assms])
       (simp add: scheduledFor_of_stable(1) [OF assms] r_def)
  have W: "local_nine z t = (q * 86400 + 32400) * 1000"
    by (simp add: local_nine_def q_def algebra_simps)
  have "(r + (q * 86400 + 32400) * 1000) div 1000 = (q * 86400 + 32400) + r div 1000"
    by (rule div_mult_self1) simp
  moreover have "r div 1000 = 0"
    using r by (intro div_pos_pos_trivial) arith+
  ultimately have "(local_nine z t + r) div 1000 = q * 86400 + 32400"
    by (simp add: W add.commute)
  then show ?thesis
    by (simp add: s W)
qed

lemma scheduledFor_of_day:
  assumes "\<forall>u. local_nine z t - nine_offset z t \<le> u \<and>
                u < local_nine z t - nine_offset z t + 3600000 \<longrightarrow>
              z u = nine_offset z t"
  shows "(scheduledFor_of z t + z (scheduledFor_of z t)) div 86400000 = (t + z t) div 86400000"
proof -
  define q where "q = (t + z t) div 86400000"
  define r where "r = (t + z t) mod 1000"
  have r: "0 \<le> r" "r < 1000" by (simp_all add: r_def)
  have s: "scheduledFor_of z t + z (scheduledFor_of z t) = q * 86400000 + 32400000 + r"
    by (simp only: scheduledFor_of_stable(2) [OF assms])
       (simp add: scheduledFor_of_stable(1) [OF assms] r_def local_nine_def q_def)
  have "(32400000 + r + q * 86400000) div 86400000 = q + (32400000 + r) div 86400000"
    by (rule div_mult_self1) simp
  moreover have "(32400000 + r) div 86400000 = 0"
    using r by (intro div_pos_pos_trivial) arith+
  ultimately have "(q * 86400000 + 32400000 + r) div 86400000 = q"
    by (simp add: algebra_simps)
  then show ?thesis
    unfolding s q_def .
qed

lemma getFullYear_scheduledFor_of:
  assumes "\<forall>u. local_nine z t - nine_offset z t \<le> u \<and>
                u < local_nine z t - nine_offset z t + 3600000 \<longrightarrow>
              z u = nine_offset z t"
  shows "getFullYear z (scheduledFor_of z t) = getFullYear z t"
  by (simp add: getFullYear_def scheduledFor_of_day [OF assms])

section \<open>The scanner's per-recipient step\<close>

lemma repo_update_fresh:
  "i \<notin> id_m ` set rows \<Longrightarrow> repo_update i f now rows = rows"
  by (induction rows) (auto simp: repo_update_def)

lemma locks_createBirthdayMessage [simp]:
  "locks (snd (createBirthdayMessage e usr scheduled s)) = locks s"
  by (simp add: createBirthdayMessage_def repo_save_def Let_def split: option.splits sum.splits)

lemma locks_publishBirthdayMessage [simp]:
  "locks (snd (publishBirthdayMessage payload s)) = locks s"
  by (simp add: publishBirthdayMessage_def)

lemma locks_markAsQueued [simp]: "locks (markAsQueued i now s) = locks s"
  by (simp add: markAsQueued_def)

lemma createAndQueue_locked:
  "isLocked (userLockKey e usr) (clock e) s \<Longrightarrow>
     createAndQueueBirthdayMessage e usr tz s = (Inr (), s)"
  by (simp add: createAndQueueBirthdayMessage_def acquireLock_def)

lemma createAndQueue_locks:
  assumes "\<not> isLocked (userLockKey e usr) (clock e) s"
  shows "locks (snd (createAndQueueBirthdayMessage e usr tz s)) =
           (locks s)(''lock:'' @ userLockKey e usr \<mapsto> clock e + 300000)"
proof -
  define s1 where "s1 = s\<lparr>locks := (locks s)(''lock:'' @ userLockKey e usr \<mapsto> clock e + 300000)\<rparr>"
  define sched where "sched = scheduledFor_of (zoneOffset e tz) (clock e)"
  have a: "acquireLock (userLockKey e usr) 300 (clock e) s = (True, s1)"
    using assms by (simp add: acquireLock_def s1_def)
  obtain r s2 where c: "createBirthdayMessage e usr sched s1 = (r, s2)"
    by (cases "createBirthdayMessage e usr sched s1")
  have l2: "locks s2 = locks s1"
    using locks_createBirthdayMessage [of e usr sched s1] by (simp add: c)
  show ?thesis
  proof (cases r)
    case (Inl err)
    then show ?thesis
      using a c l2 by (simp add: createAndQueueBirthdayMessage_def sched_def [symmetric] s1_def)
  next
    case (Inr created)
    show ?thesis
    proof (cases created)
      case None
      with Inr show ?thesis
        using a c l2 by (simp add: createAndQueueBirthdayMessage_def sched_def [symmetric] s1_def)
    next
      case (Some message)
      define pl where "pl = \<lparr>p_messageId = id_m message, p_userId = id_u usr, p_email = email usr,
                        p_fullName = firstName usr @ '' '' @ lastName usr\<rparr>"
      obtain r3 s3 where p: "publishBirthdayMessage pl s2 = (r3, s3)"
        by (cases "publishBirthdayMessage pl s2")
      have l3: "locks s3 = locks s2"
        using locks_publishBirthdayMessage [of pl s2] by (simp add: p)
      show ?thesis
        using a c l2 l3 p [unfolded pl_def] Inr Some
        by (cases r3)
           (simp_all add: createAndQueueBirthdayMessage_def sched_def [symmetric] s1_def)
    qed
  qed
qed

text \<open>
  Claim C10, amended. When the per-recipient step acquires the per-recipient-per-year
  lock, then whatever happens next (record created, duplicate found, error thrown) the
  lock is still in the store afterwards, with expiry 300 seconds after the acquisition.
  A later run of the step for the same recipient before that expiry returns at the lock
  acquisition, leaving ledger, queue and locks exactly as they were, when the calendar
  of its process reads the same year as at the first run, which is when it asks for the
  same key.
\<close>

theorem C10_user_lock_kept:
  assumes "\<not> isLocked (userLockKey e usr) (clock e) s"
  shows "locks (snd (createAndQueueBirthdayMessage e usr tz s)) (''lock:'' @ userLockKey e usr) =
           Some (clock e + 300 * 1000) \<and>
         (\<forall>e' tz'. clock e' < clock e + 300 * 1000 \<and>
                  getFullYear (serverOffset e') (clock e') = getFullYear (serverOffset e) (clock e) \<longrightarrow>
            createAndQueueBirthdayMessage e' usr tz' (snd (createAndQueueBirthdayMessage e usr tz s)) =
              (Inr (), snd (createAndQueueBirthdayMessage e usr tz s)))"
proof (intro conjI allI impI)
  show "locks (snd (createAndQueueBirthdayMessage e usr tz s)) (''lock:'' @ userLockKey e usr) =
           Some (clock e + 300 * 1000)"
    by (simp add: createAndQueue_locks [OF assms])
next
  fix e' :: env and tz' :: string
  assume w: "clock e' < clock e + 300 * 1000 \<and>
             getFullYear (serverOffset e') (clock e') = getFullYear (serverOffset e) (clock e)"
  then have k: "userLockKey e' usr = userLockKey e usr"
    by (simp add: userLockKey_def)
  have "isLocked (userLockKey e' usr) (clock e') (snd (createAndQueueBirthdayMessage e usr tz s))"
    using w by (simp add: isLocked_def k createAndQueue_locks [OF assms])
  then show "createAndQueueBirthdayMessage e' usr tz' (snd (createAndQueueBirthdayMessage e usr tz s)) =
              (Inr (), snd (createAndQueueBirthdayMessage e usr tz s))"
    by (rule createAndQueue_locked)
qed

lemma ex5_key: "userLockKey ex5_env ex_user = ''birthday-user-u1-2024''"
  by code_simp

lemma ex5_later_year:
  "getFullYear (serverOffset ex5_env) 1735675200000 = getFullYear (serverOffset ex5_env) 1735675260000"
  by code_simp

theorem C10_user_lock_kept_witness:
  "locks (snd (createAndQueueBirthdayMessage ex5_env ex_user ''Pacific/Auckland'' (ex_sys [])))
     ''lock:birthday-user-u1-2024'' = Some 1735675500000 \<and>
   createAndQueueBirthdayMessage (ex5_env\<lparr>clock := 1735675260000\<rparr>) ex_user ''Pacific/Auckland''
     (snd (createAndQueueBirthdayMessage ex5_env ex_user ''Pacific/Auckland'' (ex_sys []))) =
     (Inr (), snd (createAndQueueBirthdayMessage ex5_env ex_user ''Pacific/Auckland'' (ex_sys []))) \<and>
   locks (snd (createAndQueueBirthdayMessage ex5_env ex_user ''Pacific/Auckland''
                 (ex_sys [ex_row ''m1'' 2024 SENT 0 10])))
     ''lock:birthday-user-u1-2024'' = Some 1735675500000 \<and>
   locks (snd (createAndQueueBirthdayMessage ex5_env ex_user ''Pacific/Auckland''
                 ((ex_sys [])\<lparr>channel := False\<rparr>)))
     ''lock:birthday-user-u1-2024'' = Some 1735675500000"
proof -
  have c: "clock ex5_env = 1735675200000"
    by (simp add: ex5_env_def)
  have n1: "\<not> isLocked (userLockKey ex5_env ex_user) (clock ex5_env) (ex_sys [])"
    by (rule ex_not_locked)
  have n2: "\<not> isLocked (userLockKey ex5_env ex_user) (clock ex5_env) (ex_sys [ex_row ''m1'' 2024 SENT 0 10])"
    by (rule ex_not_locked)
  have n3: "\<not> isLocked (userLockKey ex5_env ex_user) (clock ex5_env) ((ex_sys [])\<lparr>channel := False\<rparr>)"
    by (simp add: isLocked_def ex_sys_def)
  note t1 = C10_user_lock_kept [OF n1, of "''Pacific/Auckland''"]
  from t1 have a: "locks (snd (createAndQueueBirthdayMessage ex5_env ex_user ''Pacific/Auckland'' (ex_sys [])))
     ''lock:birthday-user-u1-2024'' = Some 1735675500000"
    by (simp add: ex5_key c)
  from t1 have "clock (ex5_env\<lparr>clock := 1735675260000\<rparr>) < clock ex5_env + 300 * 1000 \<and>
       getFullYear (serverOffset (ex5_env\<lparr>clock := 1735675260000\<rparr>)) (clock (ex5_env\<lparr>clock := 1735675260000\<rparr>)) =
       getFullYear (serverOffset ex5_env) (clock ex5_env) \<longrightarrow>
     createAndQueueBirthdayMessage (ex5_env\<lparr>clock := 1735675260000\<rparr>) ex_user ''Pacific/Auckland''
     (snd (createAndQueueBirthdayMessage ex5_env ex_user ''Pacific/Auckland'' (ex_sys []))) =
     (Inr (), snd (createAndQueueBirthdayMessage ex5_env ex_user ''Pacific/Auckland'' (ex_sys [])))"
    by blast
  then have b: "createAndQueueBirthdayMessage (ex5_env\<lparr>clock := 1735675260000\<rparr>) ex_user ''Pacific/Auckland''
     (snd (createAndQueueBirthdayMessage ex5_env ex_user ''Pacific/Auckland'' (ex_sys []))) =
     (Inr (), snd (createAndQueueBirthdayMessage ex5_env ex_user ''Pacific/Auckland'' (ex_sys [])))"
    by (simp add: c ex5_later_year)
  have d: "locks (snd (createAndQueueBirthdayMessage ex5_env ex_user ''Pacific/Auckland''
                 (ex_sys [ex_row ''m1'' 2024 SENT 0 10])))
     ''lock:birthday-user-u1-2024'' = Some 1735675500000"
    using C10_user_lock_kept [OF n2, of "''Pacific/Auckland''"] by (simp add: ex5_key c)
  have e: "locks (snd (createAndQueueBirthdayMessage ex5_env ex_user ''Pacific/Auckland''
                 ((ex_sys [])\<lparr>channel := False\<rparr>)))
     ''lock:birthday-user-u1-2024'' = Some 1735675500000"
    using C10_user_lock_kept [OF n3, of "''Pacific/Auckland''"] by (simp add: ex5_key c)
  from a b d e show ?thesis by blast
qed

lemma ex10_first_messages:
  "messages ex10_first = [ex5_new ''m2'' QUEUED 2024 1735675200000 1735675205000]"
  by code_simp

lemma ex10_second_messages:
  "messages (snd (createAndQueueBirthdayMessage ex10_other_env ex_user ''Pacific/Auckland'' ex10_first)) =
     [ex5_new ''m2'' QUEUED 2024 1735675200000 1735675205000,
      ex5_new ''m3'' QUEUED 2025 1735675200000 1735675225000]"
  by code_simp

lemma ex10_second_queue:
  "queue (snd (createAndQueueBirthdayMessage ex10_other_env ex_user ''Pacific/Auckland'' ex10_first)) =
     [\<lparr>p_messageId = ''m2'', p_userId = ''u1'', p_email = ''john@example.com'', p_fullName = ''John Doe''\<rparr>,
      \<lparr>p_messageId = ''m3'', p_userId = ''u1'', p_email = ''john@example.com'', p_fullName = ''John Doe''\<rparr>]"
  by code_simp

text \<open>
  Two instances whose processes run in different zones, UTC and UTC+9, scan the same
  recipient 20 seconds apart, at 20:00 UTC on 31 December 2024. Their calendars read
  2024 and 2025, so the second asks for another key, acquires it, and creates and
  publishes a second record within the window of the first lock.
\<close>

theorem C10_other_year_counterexample:
  "clock ex10_env \<le> clock ex10_other_env \<and> clock ex10_other_env < clock ex10_env + 300 * 1000 \<and>
   messages ex10_first = [ex5_new ''m2'' QUEUED 2024 1735675200000 1735675205000] \<and>
   messages (snd (createAndQueueBirthdayMessage ex10_other_env ex_user ''Pacific/Auckland'' ex10_first)) =
     [ex5_new ''m2'' QUEUED 2024 1735675200000 1735675205000,
      ex5_new ''m3'' QUEUED 2025 1735675200000 1735675225000] \<and>
   queue (snd (createAndQueueBirthdayMessage ex10_other_env ex_user ''Pacific/Auckland'' ex10_first)) =
     [\<lparr>p_messageId = ''m2'', p_userId = ''u1'', p_email = ''john@example.com'', p_fullName = ''John Doe''\<rparr>,
      \<lparr>p_messageId = ''m3'', p_userId = ''u1'', p_email = ''john@example.com'', p_fullName = ''John Doe''\<rparr>]"
proof -
  have "clock ex10_env \<le> clock ex10_other_env \<and> clock ex10_other_env < clock ex10_env + 300 * 1000"
    by (simp add: ex10_env_def ex10_other_env_def)
  then show ?thesis
    by (simp add: ex10_first_messages ex10_second_messages ex10_second_queue)
qed

lemma repo_update_append:
  "repo_update i f now (xs @ ys) = repo_update i f now xs @ repo_update i f now ys"
  by (simp add: repo_update_def)

text \<open>
  Claim C5, amended. When the per-recipient step creates a record, the record is keyed
  by the calendar year of its scheduled-for instant as read in the zone of the process
  (\<^verbatim>\<open>getFullYear\<close>); this is the recipient's current local year when the process
  runs in the recipient's zone. Read in the recipient's zone to the second, the
  scheduled-for instant is 09:00:00 of the recipient's current local day, provided the
  zone keeps one offset through that local 09:00 hour.
\<close>

theorem C5_record_year_and_schedule:
  assumes "\<not> isLocked (userLockKey e usr) (clock e) s"
    and "find (same_key usr (getFullYear (serverOffset e) (scheduledFor_of (zoneOffset e tz) (clock e))))
           (messages s) = None"
    and "concurrentRows e = []" and "saveFault e = None" and "channel s"
    and "generatedId e \<notin> id_m ` set (messages s)"
    and "\<forall>u. local_nine (zoneOffset e tz) (clock e) - nine_offset (zoneOffset e tz) (clock e) \<le> u \<and>
              u < local_nine (zoneOffset e tz) (clock e) - nine_offset (zoneOffset e tz) (clock e) + 3600000 \<longrightarrow>
            zoneOffset e tz u = nine_offset (zoneOffset e tz) (clock e)"
  shows "messages (snd (createAndQueueBirthdayMessage e usr tz s)) =
           messages s @
           [\<lparr>id_m = generatedId e, userId = id_u usr, user = None,
             year = getFullYear (serverOffset e) (scheduledFor_of (zoneOffset e tz) (clock e)),
             status = QUEUED, messageType = BIRTHDAY,
             scheduledFor = scheduledFor_of (zoneOffset e tz) (clock e),
             sentAt = None, attempts = 0, lastError = None,
             createdAt = clock e, updatedAt = clock e\<rparr>] \<and>
         ((scheduledFor_of (zoneOffset e tz) (clock e) +
             zoneOffset e tz (scheduledFor_of (zoneOffset e tz) (clock e))) div 1000) * 1000 =
           local_nine (zoneOffset e tz) (clock e) \<and>
         (serverOffset e = zoneOffset e tz \<longrightarrow>
            getFullYear (serverOffset e) (scheduledFor_of (zoneOffset e tz) (clock e)) =
              getFullYear (zoneOffset e tz) (clock e))"
proof (intro conjI impI)
  from assms(2) have n: "\<not> list_ex (same_key usr (getFullYear (serverOffset e)
       (scheduledFor_of (zoneOffset e tz) (clock e)))) (messages s)"
    by (rule find_None_list_ex)
  show "messages (snd (createAndQueueBirthdayMessage e usr tz s)) =
           messages s @
           [\<lparr>id_m = generatedId e, userId = id_u usr, user = None,
             year = getFullYear (serverOffset e) (scheduledFor_of (zoneOffset e tz) (clock e)),
             status = QUEUED, messageType = BIRTHDAY,
             scheduledFor = scheduledFor_of (zoneOffset e tz) (clock e),
             sentAt = None, attempts = 0, lastError = None,
             createdAt = clock e, updatedAt = clock e\<rparr>]"
    using assms(1-6) n
    by (simp add: createAndQueueBirthdayMessage_def acquireLock_def createBirthdayMessage_def
          repo_save_def publishBirthdayMessage_def markAsQueued_def Let_def
          repo_update_append repo_update_fresh)
       (simp add: repo_update_def)
next
  show "((scheduledFor_of (zoneOffset e tz) (clock e) +
             zoneOffset e tz (scheduledFor_of (zoneOffset e tz) (clock e))) div 1000) * 1000 =
           local_nine (zoneOffset e tz) (clock e)"
    by (rule scheduledFor_of_second [OF assms(7)])
next
  assume "serverOffset e = zoneOffset e tz"
  then show "getFullYear (serverOffset e) (scheduledFor_of (zoneOffset e tz) (clock e)) =
              getFullYear (zoneOffset e tz) (clock e)"
    by (simp add: getFullYear_scheduledFor_of [OF assms(7)])
qed

lemma ex5_local_values:
  "local_nine (zoneOffset ex5_local_env ''Pacific/Auckland'') 1735675200000 = 1735722000000"
  "nine_offset (zoneOffset ex5_local_env ''Pacific/Auckland'') 1735675200000 = 46800000"
  "scheduledFor_of (zoneOffset ex5_local_env ''Pacific/Auckland'') 1735675200000 = 1735675200000"
  "getFullYear (serverOffset ex5_local_env) 1735675200000 = 2025"
  "getFullYear (zoneOffset ex5_local_env ''Pacific/Auckland'') 1735675200000 = 2025"
  by code_simp+

lemma ex5_ny_values:
  "local_nine (zoneOffset ex5_ny_env ''America/New_York'') 1741501800000 = 1741510800000"
  "nine_offset (zoneOffset ex5_ny_env ''America/New_York'') 1741501800000 = - 14400000"
  "scheduledFor_of (zoneOffset ex5_ny_env ''America/New_York'') 1741501800000 = 1741525200000"
  "getFullYear (serverOffset ex5_ny_env) 1741525200000 = 2025"
  by code_simp+

theorem C5_record_year_and_schedule_witness:
  "messages (snd (createAndQueueBirthdayMessage ex5_local_env ex_user ''Pacific/Auckland'' (ex_sys []))) =
     [ex5_new ''m2'' QUEUED 2025 1735675200000 1735675200000] \<and>
   local_nine (zoneOffset ex5_local_env ''Pacific/Auckland'') (clock ex5_local_env) =
     ((1735675200000 + 46800000) div 1000) * 1000 \<and>
   getFullYear (zoneOffset ex5_local_env ''Pacific/Auckland'') (clock ex5_local_env) = 2025 \<and>
   messages (snd (createAndQueueBirthdayMessage ex5_ny_env ex_ny_user ''America/New_York'' (ex_sys []))) =
     [ex5_new ''m2'' QUEUED 2025 1741525200000 1741501800000] \<and>
   local_nine (zoneOffset ex5_ny_env ''America/New_York'') (clock ex5_ny_env) =
     ((1741525200000 + zoneOffset ex5_ny_env ''America/New_York'' 1741525200000) div 1000) * 1000"
proof -
  have g: "generatedId ex5_local_env = ''m2''" "clock ex5_local_env = 1735675200000"
    "id_u ex_user = ''u1''" "messages (ex_sys []) = []"
    "generatedId ex5_ny_env = ''m2''" "clock ex5_ny_env = 1741501800000" "id_u ex_ny_user = ''u1''"
    "serverOffset ex5_local_env = zoneOffset ex5_local_env ''Pacific/Auckland''"
    by (simp_all add: ex5_local_env_def ex5_ny_env_def ex5_env_def ex_user_def ex_ny_user_def
          ex_sys_def ex_zones_def)
  have z: "zoneOffset ex5_local_env ''Pacific/Auckland'' u = 46800000" for u
    by (simp add: ex5_local_env_def ex5_env_def ex_zones_def)
  have zn: "zoneOffset ex5_ny_env ''America/New_York'' u = - 14400000" if "1741525200000 \<le> u" for u
    using that by (simp add: ex5_ny_env_def ex5_env_def ex_zones_def)
  have a1: "\<not> isLocked (userLockKey ex5_local_env ex_user) (clock ex5_local_env) (ex_sys [])"
    by (rule ex_not_locked)
  have a2: "find (same_key ex_user (getFullYear (serverOffset ex5_local_env)
              (scheduledFor_of (zoneOffset ex5_local_env ''Pacific/Auckland'') (clock ex5_local_env))))
           (messages (ex_sys [])) = None"
    by (simp add: ex_sys_def)
  have a3: "concurrentRows ex5_local_env = []" and a4: "saveFault ex5_local_env = None"
    and a5: "channel (ex_sys [])"
    and a6: "generatedId ex5_local_env \<notin> id_m ` set (messages (ex_sys []))"
    by (simp_all add: ex5_local_env_def ex5_env_def ex_sys_def)
  have a7: "\<forall>u. local_nine (zoneOffset ex5_local_env ''Pacific/Auckland'') (clock ex5_local_env) -
                 nine_offset (zoneOffset ex5_local_env ''Pacific/Auckland'') (clock ex5_local_env) \<le> u \<and>
              u < local_nine (zoneOffset ex5_local_env ''Pacific/Auckland'') (clock ex5_local_env) -
                 nine_offset (zoneOffset ex5_local_env ''Pacific/Auckland'') (clock ex5_local_env) + 3600000 \<longrightarrow>
            zoneOffset ex5_local_env ''Pacific/Auckland'' u =
              nine_offset (zoneOffset ex5_local_env ''Pacific/Auckland'') (clock ex5_local_env)"
    by (simp add: g ex5_local_values z)
  have b1: "\<not> isLocked (userLockKey ex5_ny_env ex_ny_user) (clock ex5_ny_env) (ex_sys [])"
    by (rule ex_not_locked)
  have b2: "find (same_key ex_ny_user (getFullYear (serverOffset ex5_ny_env)
              (scheduledFor_of (zoneOffset ex5_ny_env ''America/New_York'') (clock ex5_ny_env))))
           (messages (ex_sys [])) = None"
    by (simp add: ex_sys_def)
  have b3: "concurrentRows ex5_ny_env = []" and b4: "saveFault ex5_ny_env = None"
    and b6: "generatedId ex5_ny_env \<notin> id_m ` set (messages (ex_sys []))"
    by (simp_all add: ex5_ny_env_def ex5_env_def ex_sys_def)
  have b7: "\<forall>u. local_nine (zoneOffset ex5_ny_env ''America/New_York'') (clock ex5_ny_env) -
                 nine_offset (zoneOffset ex5_ny_env ''America/New_York'') (clock ex5_ny_env) \<le> u \<and>
              u < local_nine (zoneOffset ex5_ny_env ''America/New_York'') (clock ex5_ny_env) -
                 nine_offset (zoneOffset ex5_ny_env ''America/New_York'') (clock ex5_ny_env) + 3600000 \<longrightarrow>
            zoneOffset ex5_ny_env ''America/New_York'' u =
              nine_offset (zoneOffset ex5_ny_env ''America/New_York'') (clock ex5_ny_env)"
    by (simp add: g ex5_ny_values zn)
  note t1 = C5_record_year_and_schedule [OF a1 a2 a3 a4 a5 a6 a7]
  note t2 = C5_record_year_and_schedule [OF b1 b2 b3 b4 a5 b6 b7]
  from t1 have w1: "messages (snd (createAndQueueBirthdayMessage ex5_local_env ex_user ''Pacific/Auckland'' (ex_sys []))) =
     [ex5_new ''m2'' QUEUED 2025 1735675200000 1735675200000]"
    by (simp add: ex5_local_values g ex5_new_def)
  from t1 have w2: "local_nine (zoneOffset ex5_local_env ''Pacific/Auckland'') (clock ex5_local_env) =
     ((1735675200000 + 46800000) div 1000) * 1000"
    by (simp add: g(2) ex5_local_values z)
  from t1 g(8) have w3: "getFullYear (zoneOffset ex5_local_env ''Pacific/Auckland'') (clock ex5_local_env) = 2025"
    by (simp add: g(2) ex5_local_values)
  from t2 have w4: "messages (snd (createAndQueueBirthdayMessage ex5_ny_env ex_ny_user ''America/New_York'' (ex_sys []))) =
     [ex5_new ''m2'' QUEUED 2025 1741525200000 1741501800000]"
    by (simp add: ex5_ny_values g ex5_new_def)
  from t2 have w5: "local_nine (zoneOffset ex5_ny_env ''America/New_York'') (clock ex5_ny_env) =
     ((1741525200000 + zoneOffset ex5_ny_env ''America/New_York'' 1741525200000) div 1000) * 1000"
    by (simp add: g(6) ex5_ny_values zn)
  from w1 w2 w3 w4 w5 show ?thesis by blast
qed

lemma ex5_record:
  "messages (snd (createAndQueueBirthdayMessage ex5_env ex_user ''Pacific/Auckland'' (ex_sys []))) =
     [ex5_new ''m2'' QUEUED 2024 1735675200000 1735675200000]"
  by code_simp

text \<open>
  A process in UTC scans at 2024-12-31T20:00:00Z a recipient in a zone at UTC+13, where
  it is 09:00 on 1 January 2025. The record is keyed 2024, not 2025.
\<close>

theorem C5_server_year_counterexample:
  "messages (snd (createAndQueueBirthdayMessage ex5_env ex_user ''Pacific/Auckland'' (ex_sys []))) =
     [ex5_new ''m2'' QUEUED 2024 1735675200000 1735675200000] \<and>
   getFullYear (zoneOffset ex5_env ''Pacific/Auckland'') (clock ex5_env) = 2025"
proof -
  have "getFullYear (zoneOffset ex5_env ''Pacific/Auckland'') (clock ex5_env) = 2025"
    by code_simp
  then show ?thesis by (simp add: ex5_record)
qed

section \<open>The reconciler\<close>

lemma query_frame [simp]:
  "getFailedMessagesForRetry a l (s\<lparr>locks := k\<rparr>) = getFailedMessagesForRetry a l s"
  "getPendingMessagesToQueue now (s\<lparr>locks := k\<rparr>) = getPendingMessagesToQueue now s"
  by (simp_all add: getFailedMessagesForRetry_def getPendingMessagesToQueue_def)

lemma ex8_getFailed: "getFailedMessagesForRetry 5 100 ex8_sys = []"
  by code_simp

lemma ex8_distinct: "distinct (map id_m (messages ex8_sys))"
  by code_simp

lemma ex8_pending: "getPendingMessagesToQueue 5000 ex8_sys = []"
  by code_simp

lemma ex8_found:
  "findById ''m1'' ex8_sys = Some ((ex_row ''m1'' 2024 FAILED 2 1000)\<lparr>user := Some ex_user\<rparr>)"
  by code_simp

lemma ex8_pass:
  "recoverUnsentMessages 5000 ex8_sys =
     ex8_sys\<lparr>locks := (locks ex8_sys)(''lock:recovery-job-lock'' := None)\<rparr>"
proof -
  have "\<not> isLocked ''recovery-job-lock'' 5000 ex8_sys"
    by (simp add: isLocked_def ex8_sys_def ex_sys_def)
  then show ?thesis
    by (simp add: recoverUnsentMessages_def acquireLock_def releaseLock_def
          recoverPendingMessages_def retryFailedMessages_def ex8_getFailed ex8_pending)
qed

text \<open>
  Claim C8 at a failed record with attempt count 2 and a resolvable recipient that
  stands behind the failed records of 100 other recipients, all past the ceiling and
  with older update stamps. The retry query takes the first 100 failed rows and only
  then drops the exhausted ones, so it returns nothing: the pass, with its lock acquired
  and the channel open, leaves the record failed and publishes nothing.
\<close>

theorem C8_retryable_record_not_retried:
  "findById ''m1'' ex8_sys = Some ((ex_row ''m1'' 2024 FAILED 2 1000)\<lparr>user := Some ex_user\<rparr>) \<and>
   distinct (map id_m (messages ex8_sys)) \<and> channel ex8_sys \<and>
   \<not> isLocked ''recovery-job-lock'' 5000 ex8_sys \<and>
   getFailedMessagesForRetry 5 100 ex8_sys = [] \<and>
   findById ''m1'' (recoverUnsentMessages 5000 ex8_sys) =
     Some ((ex_row ''m1'' 2024 FAILED 2 1000)\<lparr>user := Some ex_user\<rparr>) \<and>
   queue (recoverUnsentMessages 5000 ex8_sys) = []"
proof -
  have "\<not> isLocked ''recovery-job-lock'' 5000 ex8_sys"
    by (simp add: isLocked_def ex8_sys_def ex_sys_def)
  moreover have "channel ex8_sys" "queue ex8_sys = []"
    by (simp_all add: ex8_sys_def ex_sys_def)
  ultimately show ?thesis
    by (simp add: ex8_pass ex8_found ex8_distinct ex8_getFailed)
qed

end
